theory Spec2Isabelle
  imports Complex_Main "HOL-Library.AList" "HOL-Library.Sublist"
begin

section \<open>Python strings\<close>

text \<open>
  A Python \<open>str\<close> is modelled by \<^typ>\<open>string\<close>, one \<^typ>\<open>char\<close> per code point, so the
  model covers the strings whose code points are below 256. On that range
  \<open>str.isspace\<close> holds of the twelve code points listed in \<open>py_isspace\<close>, and
  \<open>str.lower\<close> moves \<open>A\<close>..\<open>Z\<close> and the code points 192..222 other than 215 up by 32.
  \<open>str.strip()\<close> removes leading and trailing whitespace, \<open>str.split()\<close> returns the
  maximal runs of non-whitespace characters, \<open>k in t\<close> tests for a contiguous occurrence
  and \<open>' '.join\<close> puts one space between the parts.
\<close>

definition py_isspace :: "char \<Rightarrow> bool" where
  "py_isspace c = ((of_char c :: nat) \<in> set [9, 10, 11, 12, 13, 28, 29, 30, 31, 32, 133, 160])"

definition py_strip :: "string \<Rightarrow> string" where
  "py_strip s = rev (dropWhile py_isspace (rev (dropWhile py_isspace s)))"

fun split_from :: "string \<Rightarrow> string \<Rightarrow> string list" where
  "split_from cur [] = (if cur = [] then [] else [cur])"
| "split_from cur (c # cs) =
     (if py_isspace c then (if cur = [] then [] else [cur]) @ split_from [] cs
      else split_from (cur @ [c]) cs)"

definition py_split :: "string \<Rightarrow> string list" where
  "py_split s = split_from [] s"

definition lower_char :: "char \<Rightarrow> char" where
  "lower_char c =
     (let n = (of_char c :: nat)
      in if (65 \<le> n \<and> n \<le> 90) \<or> (192 \<le> n \<and> n \<le> 222 \<and> n \<noteq> 215)
         then char_of (n + 32) else c)"

definition py_lower :: "string \<Rightarrow> string" where
  "py_lower s = map lower_char s"

fun py_in :: "string \<Rightarrow> string \<Rightarrow> bool" where
  "py_in k [] = (k = [])"
| "py_in k (c # cs) = (prefix k (c # cs) \<or> py_in k cs)"

fun py_join :: "string \<Rightarrow> string list \<Rightarrow> string" where
  "py_join sep [] = []"
| "py_join sep [x] = x"
| "py_join sep (x # y # ys) = x @ sep @ py_join sep (y # ys)"

section \<open>The header predicate\<close>

text \<open>
  \<open>ExcelProcessor._is_potential_table_header\<close>: empty or whitespace-only text is
  rejected first; then the keywords are tried in order on the lower-cased text; then
  the test for a short descriptive text.
\<close>

definition header_keywords :: "string list" where
  "header_keywords =
     [''investment'', ''revenue'', ''expense'', ''projection'', ''cash flow'',
      ''initial'', ''operating'', ''capital'', ''budget'', ''financial'']"

definition is_potential_table_header :: "string \<Rightarrow> bool" where
  "is_potential_table_header text =
     (if text = [] \<or> py_strip text = [] then False
      else if list_ex (\<lambda>keyword. py_in keyword (py_lower text)) header_keywords then True
      else if length (py_split text) \<le> 5 \<and> length text > 5 then True
      else False)"

section \<open>Floats\<close>

text \<open>
  The arithmetic of Python's \<open>float\<close> belongs to the interpreter and not to this
  program: it is a parameter \<open>fl\<close> of everything below, over a type \<open>'f\<close> of floats
  (NaN and the infinities among them).
  \<^item> \<open>f_nan\<close>: the NaN that marks a missing value, and \<open>f_isnan x\<close>: \<open>x\<close> is NaN;
  \<^item> \<open>f_of_int i\<close>: \<open>float(i)\<close>, the float nearest to \<open>i\<close>, and \<open>None\<close> where it raises
    \<open>OverflowError\<close>;
  \<^item> \<open>f_of_decimal (neg, m, k)\<close>: \<open>float(s)\<close> for a numeral \<open>s\<close> whose digits read as
    \<open>m\<close>, with \<open>k\<close> of them after the point and a leading minus sign when \<open>neg\<close>: the
    float nearest to \<open>m / 10 ^ k\<close>, negated when \<open>neg\<close>;
  \<^item> \<open>f_add x y\<close>: \<open>x + y\<close>;
  \<^item> \<open>f_str x\<close>: \<open>str(x)\<close>.
\<close>

record 'f float_ops =
  f_nan :: 'f
  f_isnan :: "'f \<Rightarrow> bool"
  f_of_int :: "int \<Rightarrow> 'f option"
  f_of_decimal :: "bool \<times> nat \<times> nat \<Rightarrow> 'f"
  f_add :: "'f \<Rightarrow> 'f \<Rightarrow> 'f"
  f_str :: "'f \<Rightarrow> string"

section \<open>Cell values\<close>

text \<open>
  A cell of a sheet holds a Python \<open>int\<close>, a \<open>float\<close> or a \<open>str\<close>. The decoder
  (\<open>pandas.read_excel\<close>) marks an empty cell by the float NaN, which is what
  \<open>dropna\<close>, \<open>isna\<close> and \<open>notna\<close> test for. \<open>str\<close> of an \<open>int\<close> is its decimal numeral.
\<close>

datatype 'f cell = CInt int | CFloat 'f | CStr string

fun isna :: "'f float_ops \<Rightarrow> 'f cell \<Rightarrow> bool" where
  "isna fl (CFloat x) = f_isnan fl x"
| "isna fl c = False"

definition digit_char :: "nat \<Rightarrow> char" where
  "digit_char n = char_of (48 + n)"

fun str_nat :: "nat \<Rightarrow> string" where
  "str_nat n = (if n < 10 then [digit_char n] else str_nat (n div 10) @ [digit_char (n mod 10)])"

declare str_nat.simps [simp del]

definition str_int :: "int \<Rightarrow> string" where
  "str_int i = (if i < 0 then CHR ''-'' # str_nat (nat (- i)) else str_nat (nat i))"

fun py_str :: "'f float_ops \<Rightarrow> 'f cell \<Rightarrow> string" where
  "py_str fl (CInt i) = str_int i"
| "py_str fl (CFloat x) = f_str fl x"
| "py_str fl (CStr s) = s"

section \<open>Numeric coercion\<close>

text \<open>
  \<open>float(s)\<close> on a string of digits, points and minus signs (all that
  \<open>re.sub(r'[^\d.-]', '', value)\<close> leaves; below code point 256 \<open>\d\<close> is \<open>0\<close>..\<open>9\<close>):
  an optional leading minus sign, then digits with at most one point and at least one
  digit. Anything else raises \<open>ValueError\<close>, here \<open>None\<close>.
\<close>

datatype py_error =
  ValueError string | IndexError string | OverflowError string | Exception string

fun error_str :: "py_error \<Rightarrow> string" where
  "error_str (ValueError m) = m"
| "error_str (IndexError m) = m"
| "error_str (OverflowError m) = m"
| "error_str (Exception m) = m"

definition is_digit :: "char \<Rightarrow> bool" where
  "is_digit c = (48 \<le> (of_char c :: nat) \<and> (of_char c :: nat) \<le> 57)"

definition digits_val :: "string \<Rightarrow> nat" where
  "digits_val s = foldl (\<lambda>a c. 10 * a + (of_char c - 48)) 0 s"

definition unsigned_of_cleaned :: "string \<Rightarrow> (nat \<times> nat) option" where
  \<comment> \<open>the digits read as one number, and how many of them follow the point\<close>
  "unsigned_of_cleaned s =
     (let ip = takeWhile is_digit s in
      case dropWhile is_digit s of
        [] \<Rightarrow> (if ip = [] then None else Some (digits_val ip, 0))
      | c # fp \<Rightarrow>
          (if c = CHR ''.'' \<and> list_all is_digit fp \<and> (ip \<noteq> [] \<or> fp \<noteq> [])
           then Some (digits_val (ip @ fp), length fp)
           else None))"

definition decimal_of_cleaned :: "string \<Rightarrow> (bool \<times> nat \<times> nat) option" where
  \<comment> \<open>whether a minus sign leads, then as \<open>unsigned_of_cleaned\<close>\<close>
  "decimal_of_cleaned s =
     (case s of
        [] \<Rightarrow> None
      | c # t \<Rightarrow>
          (if c = CHR ''-'' then map_option (Pair True) (unsigned_of_cleaned t)
           else map_option (Pair False) (unsigned_of_cleaned s)))"

definition float_of_cleaned :: "'f float_ops \<Rightarrow> string \<Rightarrow> 'f option" where
  "float_of_cleaned fl s = map_option (f_of_decimal fl) (decimal_of_cleaned s)"

definition cleaned :: "string \<Rightarrow> string" where
  "cleaned s = filter (\<lambda>c. is_digit c \<or> c = CHR ''.'' \<or> c = CHR ''-'') s"

text \<open>
  \<open>ExcelProcessor._extract_numeric_value\<close>: a number is returned as \<open>float(value)\<close>,
  which raises for an \<open>int\<close> too large; a text is stripped and parsed, and \<open>None\<close> is
  returned when nothing is left or the parse fails.
\<close>

fun extract_numeric_value :: "'f float_ops \<Rightarrow> 'f cell \<Rightarrow> py_error + 'f option" where
  "extract_numeric_value fl (CInt i) =
     (case f_of_int fl i of
        None \<Rightarrow> Inl (OverflowError ''int too large to convert to float'')
      | Some x \<Rightarrow> Inr (Some x))"
| "extract_numeric_value fl (CFloat x) = Inr (Some x)"
| "extract_numeric_value fl (CStr s) =
     Inr (if cleaned s \<noteq> [] then float_of_cleaned fl (cleaned s) else None)"

section \<open>Data frames\<close>

text \<open>
  A \<open>pandas.DataFrame\<close> is a rectangle of cells with one dtype per column. A column
  of integers that fit 64 bits is \<open>int64\<close>, a column of such integers and floats (NaN
  is one) is \<open>float64\<close> and holds every integer as a float, any other column is
  \<open>object\<close> and holds the Python values as they are (the dtype \<open>uint64\<close> that pandas
  gives to integers from \<open>2 ^ 63\<close> to \<open>2 ^ 64\<close> is left out: such a column is \<open>object\<close>
  here). \<open>pd.DataFrame(list_of_rows)\<close> infers each column so; a short row would be
  padded, which does not occur here, every row the program passes coming from one
  frame. The conversion of a 64-bit integer to a float never fails; \<open>as_dtype\<close>
  leaves an integer for which \<open>f_of_int\<close> has no float as it is.

  \<open>DataFrame.iterrows\<close> yields each row as a \<open>Series\<close> of one dtype, the common dtype
  of the columns: a frame whose columns are all numeric, not all \<open>int64\<close>, yields rows
  of floats, so the integers of an \<open>int64\<close> column are seen as floats there, while
  \<open>df.iloc[:, 0]\<close> yields the first column in its own dtype.
\<close>

datatype dtype = Int64 | Float64 | Object

record 'f DataFrame =
  df_dtypes :: "dtype list"
  df_rows :: "'f cell list list"

fun is_int64 :: "'f cell \<Rightarrow> bool" where
  "is_int64 (CInt i) = (- (2 ^ 63) \<le> i \<and> i < 2 ^ 63)"
| "is_int64 c = False"

fun is_number :: "'f cell \<Rightarrow> bool" where
  "is_number (CInt i) = (- (2 ^ 63) \<le> i \<and> i < 2 ^ 63)"
| "is_number (CFloat x) = True"
| "is_number (CStr s) = False"

definition infer_dtype :: "'f cell list \<Rightarrow> dtype" where
  "infer_dtype col =
     (if list_all is_int64 col then Int64
      else if list_all is_number col then Float64
      else Object)"

fun as_dtype :: "'f float_ops \<Rightarrow> dtype \<Rightarrow> 'f cell \<Rightarrow> 'f cell" where
  "as_dtype fl Float64 (CInt i) = (case f_of_int fl i of Some x \<Rightarrow> CFloat x | None \<Rightarrow> CInt i)"
| "as_dtype fl d c = c"

definition width :: "'f cell list list \<Rightarrow> nat" where
  "width data = foldr (\<lambda>r n. max (length r) n) data 0"

definition pad :: "'f float_ops \<Rightarrow> nat \<Rightarrow> 'f cell list \<Rightarrow> 'f cell list" where
  "pad fl n r = r @ replicate (n - length r) (CFloat (f_nan fl))"

definition pd_DataFrame :: "'f float_ops \<Rightarrow> 'f cell list list \<Rightarrow> 'f DataFrame" where
  "pd_DataFrame fl data =
     (let padded = map (pad fl (width data)) data;
          dts = map (\<lambda>j. infer_dtype (map (\<lambda>r. r ! j) padded)) [0..<width data]
      in \<lparr>df_dtypes = dts, df_rows = map (\<lambda>r. map2 (as_dtype fl) dts r) padded\<rparr>)"

definition common_dtype :: "dtype list \<Rightarrow> dtype" where
  "common_dtype dts =
     (if list_all (\<lambda>d. d = Int64) dts then Int64
      else if list_all (\<lambda>d. d \<noteq> Object) dts then Float64
      else Object)"

definition iterrows :: "'f float_ops \<Rightarrow> 'f DataFrame \<Rightarrow> 'f cell list list" where
  "iterrows fl df = map (map (as_dtype fl (common_dtype (df_dtypes df)))) (df_rows df)"

definition dropna_all :: "'f float_ops \<Rightarrow> 'f DataFrame \<Rightarrow> 'f DataFrame" where
  \<comment> \<open>\<open>df.dropna(how='all')\<close>\<close>
  "dropna_all fl df = df\<lparr>df_rows := filter (\<lambda>r. \<not> list_all (isna fl) r) (df_rows df)\<rparr>"

definition df_empty :: "'f DataFrame \<Rightarrow> bool" where
  \<comment> \<open>\<open>df.empty\<close>: an axis of length 0\<close>
  "df_empty df = (df_rows df = [] \<or> df_dtypes df = [])"

definition first_column :: "'f DataFrame \<Rightarrow> 'f cell list" where
  \<comment> \<open>\<open>df.iloc[:, 0]\<close>, read where the frame has a column\<close>
  "first_column df = map hd (df_rows df)"

definition wf_DataFrame :: "'f DataFrame \<Rightarrow> bool" where
  \<comment> \<open>every row has the frame's width\<close>
  "wf_DataFrame df = list_all (\<lambda>r. length r = length (df_dtypes df)) (df_rows df)"

section \<open>The table segmenter\<close>

text \<open>
  \<open>ExcelProcessor._extract_tables_from_sheet\<close>. The result and the two loop
  variables are the state of the loop; a Python \<open>dict\<close> is an association list in
  insertion order, and an assignment to a key already present replaces its value in
  place. A name is true when it is a non-empty string.
\<close>

definition row_str :: "'f float_ops \<Rightarrow> 'f cell list \<Rightarrow> string" where
  "row_str fl row = py_join '' '' (map (py_str fl) (filter (\<lambda>c. \<not> isna fl c) row))"

fun truthy :: "string option \<Rightarrow> bool" where
  "truthy None = False"
| "truthy (Some s) = (s \<noteq> [])"

fun save_table ::
  "'f float_ops \<Rightarrow> (string \<times> 'f DataFrame) list \<times> string option \<times> 'f cell list list \<Rightarrow>
   (string \<times> 'f DataFrame) list"
where
  "save_table fl (tables_in_sheet, current_table_name, current_table_data) =
     (if truthy current_table_name \<and> current_table_data \<noteq> []
      then AList.update (the current_table_name) (pd_DataFrame fl current_table_data)
             tables_in_sheet
      else tables_in_sheet)"

fun scan_step ::
  "'f float_ops \<Rightarrow> (string \<times> 'f DataFrame) list \<times> string option \<times> 'f cell list list \<Rightarrow>
   'f cell list \<Rightarrow> (string \<times> 'f DataFrame) list \<times> string option \<times> 'f cell list list"
where
  "scan_step fl (tables_in_sheet, current_table_name, current_table_data) row =
     (if is_potential_table_header (row_str fl row)
      then (save_table fl (tables_in_sheet, current_table_name, current_table_data),
            Some (py_strip (row_str fl row)), [])
      else if truthy current_table_name \<and> \<not> list_all (isna fl) row
      then (tables_in_sheet, current_table_name, current_table_data @ [row])
      else (tables_in_sheet, current_table_name, current_table_data))"

definition scan_tables :: "'f float_ops \<Rightarrow> 'f cell list list \<Rightarrow> (string \<times> 'f DataFrame) list" where
  \<comment> \<open>the loop over the rows and the saving of the last table\<close>
  "scan_tables fl grid = save_table fl (foldl (scan_step fl) ([], None, []) grid)"

definition extract_tables_from_sheet ::
  "'f float_ops \<Rightarrow> 'f DataFrame \<Rightarrow> string \<Rightarrow> (string \<times> 'f DataFrame) list"
where
  "extract_tables_from_sheet fl df sheet_name =
     (let tables_in_sheet = scan_tables fl (iterrows fl df)
      in if tables_in_sheet = []
         then (let non_empty_rows = dropna_all fl df
               in if \<not> df_empty non_empty_rows
                  then [(sheet_name @ ''_data'', non_empty_rows)]
                  else [])
         else tables_in_sheet)"

section \<open>The processor and its queries\<close>

text \<open>
  \<open>self.tables\<close> maps a table name to its frame. A raised exception is the left
  injection of the result. The file is what \<open>load_excel_file\<close> finds at the path:
  nothing, something the decoder rejects (with the decoder's message), or a workbook
  as the list of its sheets.
\<close>

record 'f ExcelProcessor =
  file_path :: string
  sheets_data :: "(string \<times> 'f DataFrame) list"
  tables :: "(string \<times> 'f DataFrame) list"

datatype 'f excel_file = Missing | Unreadable string | Workbook "(string \<times> 'f DataFrame) list"

definition new_ExcelProcessor :: "string \<Rightarrow> 'f ExcelProcessor" where
  "new_ExcelProcessor path = \<lparr>file_path = path, sheets_data = [], tables = []\<rparr>"

definition dict_update :: "('k \<times> 'v) list \<Rightarrow> ('k \<times> 'v) list \<Rightarrow> ('k \<times> 'v) list" where
  \<comment> \<open>\<open>d.update(other)\<close>\<close>
  "dict_update d other = foldl (\<lambda>acc (k, v). AList.update k v acc) d other"

definition identify_tables :: "'f float_ops \<Rightarrow> 'f ExcelProcessor \<Rightarrow> 'f ExcelProcessor" where
  "identify_tables fl p =
     p\<lparr>tables :=
         foldl (\<lambda>acc (sheet_name, df). dict_update acc (extract_tables_from_sheet fl df sheet_name))
           (tables p) (sheets_data p)\<rparr>"

text \<open>
  \<open>load_excel_file\<close> changes the processor in place and may raise: the result is the
  processor as the call leaves it, and the exception if one was raised.
\<close>

fun load_excel_file ::
  "'f float_ops \<Rightarrow> 'f ExcelProcessor \<Rightarrow> 'f excel_file \<Rightarrow> 'f ExcelProcessor \<times> py_error option"
where
  "load_excel_file fl p Missing =
     (p, Some (Exception (''Error loading Excel file: Excel file not found at '' @ file_path p)))"
| "load_excel_file fl p (Unreadable m) =
     (p, Some (Exception (''Error loading Excel file: '' @ m)))"
| "load_excel_file fl p (Workbook sheets) =
     (identify_tables fl (p\<lparr>sheets_data := dict_update (sheets_data p) sheets\<rparr>), None)"

definition get_table_names :: "'f ExcelProcessor \<Rightarrow> string list" where
  "get_table_names p = map fst (tables p)"

definition table_not_found :: "string \<Rightarrow> py_error" where
  "table_not_found table_name = ValueError (''Table '' @ [CHR 0x27] @ table_name @ [CHR 0x27] @ '' not found'')"

definition row_not_found :: "string \<Rightarrow> string \<Rightarrow> py_error" where
  "row_not_found row_name table_name =
     ValueError (''Row '' @ [CHR 0x27] @ row_name @ [CHR 0x27] @ '' not found in table '' @
       [CHR 0x27] @ table_name @ [CHR 0x27])"

fun row_names_loop :: "'f float_ops \<Rightarrow> string list \<Rightarrow> 'f cell list \<Rightarrow> string list" where
  "row_names_loop fl row_names [] = row_names"
| "row_names_loop fl row_names (v # vs) =
     (if \<not> isna fl v \<and> py_strip (py_str fl v) \<noteq> []
      then row_names_loop fl (row_names @ [py_strip (py_str fl v)]) vs
      else row_names_loop fl row_names vs)"

definition get_table_row_names ::
  "'f float_ops \<Rightarrow> 'f ExcelProcessor \<Rightarrow> string \<Rightarrow> py_error + string list"
where
  "get_table_row_names fl p table_name =
     (case map_of (tables p) table_name of
        None \<Rightarrow> Inl (table_not_found table_name)
      | Some table_df \<Rightarrow>
          if df_empty table_df then Inr []
          else Inr (row_names_loop fl [] (first_column table_df)))"

text \<open>
  The sum starts as the \<open>int\<close> 0, and \<open>int + float\<close> is the float of the \<open>int\<close> plus
  the float: the sum is an \<open>int\<close> only as long as nothing was added. \<open>row.iloc[0]\<close>
  raises \<open>IndexError\<close> on a row of no cells. The loop over the cells stops at the first
  exception.
\<close>

datatype 'f pynum = PInt int | PFloat 'f

fun py_add :: "'f float_ops \<Rightarrow> 'f pynum \<Rightarrow> 'f \<Rightarrow> py_error + 'f pynum" where
  "py_add fl (PInt i) x =
     (case f_of_int fl i of
        None \<Rightarrow> Inl (OverflowError ''int too large to convert to float'')
      | Some y \<Rightarrow> Inr (PFloat (f_add fl y x)))"
| "py_add fl (PFloat a) x = Inr (PFloat (f_add fl a x))"

fun find_target_row ::
  "'f float_ops \<Rightarrow> string \<Rightarrow> 'f cell list list \<Rightarrow> py_error + 'f cell list option"
where
  "find_target_row fl row_name [] = Inr None"
| "find_target_row fl row_name ([] # rest) =
     Inl (IndexError ''single positional indexer is out-of-bounds'')"
| "find_target_row fl row_name ((c # cs) # rest) =
     (if \<not> isna fl c \<and> py_strip (py_str fl c) = row_name then Inr (Some (c # cs))
      else find_target_row fl row_name rest)"

fun sum_loop :: "'f float_ops \<Rightarrow> 'f pynum \<Rightarrow> 'f cell list \<Rightarrow> py_error + 'f pynum" where
  "sum_loop fl numerical_sum [] = Inr numerical_sum"
| "sum_loop fl numerical_sum (v # rest) =
     (if \<not> isna fl v
      then (case extract_numeric_value fl v of
              Inl e \<Rightarrow> Inl e
            | Inr None \<Rightarrow> sum_loop fl numerical_sum rest
            | Inr (Some numeric_value) \<Rightarrow>
                (case py_add fl numerical_sum numeric_value of
                   Inl e \<Rightarrow> Inl e
                 | Inr s \<Rightarrow> sum_loop fl s rest))
      else sum_loop fl numerical_sum rest)"

definition calculate_row_sum ::
  "'f float_ops \<Rightarrow> 'f ExcelProcessor \<Rightarrow> string \<Rightarrow> string \<Rightarrow> py_error + 'f pynum"
where
  "calculate_row_sum fl p table_name row_name =
     (case map_of (tables p) table_name of
        None \<Rightarrow> Inl (table_not_found table_name)
      | Some table_df \<Rightarrow>
          (case find_target_row fl row_name (iterrows fl table_df) of
             Inl e \<Rightarrow> Inl e
           | Inr None \<Rightarrow> Inl (row_not_found row_name table_name)
           | Inr (Some target_row) \<Rightarrow> sum_loop fl (PInt 0) (tl target_row)))"

section \<open>Start-up and the endpoints\<close>

text \<open>
  \<open>initialize_processor\<close> binds the global \<open>processor\<close> to the new object and then
  loads the file; when the load raises, the exception is caught and \<open>False\<close> returned.
  The result is the global after the call (\<open>None\<close> before it) and the value returned.
  An endpoint returns its payload or raises \<open>HTTPException(status_code, detail)\<close>:
  404 for a \<open>ValueError\<close> of the query, 500 for any other exception.
\<close>

definition initialize_processor ::
  "'f float_ops \<Rightarrow> string \<Rightarrow> 'f excel_file \<Rightarrow> 'f ExcelProcessor option \<times> bool"
where
  "initialize_processor fl path file =
     (case load_excel_file fl (new_ExcelProcessor path) file of
        (p, None) \<Rightarrow> (Some p, True)
      | (p, Some e) \<Rightarrow> (Some p, False))"

datatype http_exception = HTTPException nat string

definition not_initialized :: http_exception where
  "not_initialized = HTTPException 500 ''Excel processor not initialized''"

definition list_tables :: "'f ExcelProcessor option \<Rightarrow> http_exception + string list" where
  "list_tables processor =
     (case processor of
        None \<Rightarrow> Inl not_initialized
      | Some p \<Rightarrow> Inr (get_table_names p))"

definition get_table_details ::
  "'f float_ops \<Rightarrow> 'f ExcelProcessor option \<Rightarrow> string \<Rightarrow>
   http_exception + string \<times> string list"
where
  "get_table_details fl processor table_name =
     (case processor of
        None \<Rightarrow> Inl not_initialized
      | Some p \<Rightarrow>
          (case get_table_row_names fl p table_name of
             Inr row_names \<Rightarrow> Inr (table_name, row_names)
           | Inl (ValueError m) \<Rightarrow> Inl (HTTPException 404 m)
           | Inl e \<Rightarrow> Inl (HTTPException 500 (''Error retrieving table details: '' @ error_str e))))"

definition row_sum ::
  "'f float_ops \<Rightarrow> 'f ExcelProcessor option \<Rightarrow> string \<Rightarrow> string \<Rightarrow>
   http_exception + string \<times> string \<times> 'f pynum"
where
  "row_sum fl processor table_name row_name =
     (case processor of
        None \<Rightarrow> Inl not_initialized
      | Some p \<Rightarrow>
          (case calculate_row_sum fl p table_name row_name of
             Inr sum_value \<Rightarrow> Inr (table_name, row_name, sum_value)
           | Inl (ValueError m) \<Rightarrow> Inl (HTTPException 404 m)
           | Inl e \<Rightarrow> Inl (HTTPException 500 (''Error calculating row sum: '' @ error_str e))))"

section \<open>Notions of the specification\<close>

text \<open>
  What a cell contributes to a row sum: the float it coerces to, nothing when the
  cell is absent or does not coerce. A cell is convertible when coercing it does not
  raise, which only \<open>float\<close> of an integer can do. \<open>python_sum fl zero xs\<close> is what
  \<open>0 + x\<^sub>1 + \<dots> + x\<^sub>n\<close> is in Python, added from the left, \<open>zero\<close> being
  \<open>float(0)\<close>. \<open>matches_label\<close> is the test that selects the target row of a sum, and
  \<open>first_cells\<close> are the first cells of the rows of a frame, for the rows that have one.
\<close>

definition coerced :: "'f float_ops \<Rightarrow> 'f cell \<Rightarrow> 'f option" where
  "coerced fl v =
     (if isna fl v then None
      else case extract_numeric_value fl v of Inr r \<Rightarrow> r | Inl e \<Rightarrow> None)"





definition first_cells :: "'f DataFrame \<Rightarrow> 'f cell list" where
  "first_cells df = concat (map (take 1) (df_rows df))"

text \<open>
  A numeral as \<open>float\<close> reads it from a string of digits, points and minus signs: an
  optional minus sign \<open>sgn\<close>, digits \<open>ip\<close>, and either nothing more or a point and
  digits \<open>fp\<close>, with a digit somewhere.
\<close>

definition numeral_of :: "bool \<Rightarrow> string \<Rightarrow> string \<Rightarrow> bool \<Rightarrow> string" where
  "numeral_of neg ip fp point =
     (if neg then ''-'' else []) @ ip @ (if point then CHR ''.'' # fp else [])"


section \<open>Floats without rounding\<close>

text \<open>
  One choice of the float operations, on which the definitions can be evaluated: NaN
  and the reals, added and read exactly, every integer having a float. It is exact on
  the integers. Its \<open>str\<close> is Python's on the whole numbers below \<open>10 ^ 16\<close> only.
\<close>

datatype pyfloat = Fnan | Fin real

fun exact_add :: "pyfloat \<Rightarrow> pyfloat \<Rightarrow> pyfloat" where
  "exact_add (Fin a) (Fin b) = Fin (a + b)"
| "exact_add a b = Fnan"

fun decimal_value :: "bool \<times> nat \<times> nat \<Rightarrow> real" where
  "decimal_value (neg, m, k) = (if neg then - (real m / 10 ^ k) else real m / 10 ^ k)"

fun exact_str :: "pyfloat \<Rightarrow> string" where
  "exact_str Fnan = ''nan''"
| "exact_str (Fin x) = str_int \<lfloor>x\<rfloor> @ ''.0''"

definition exact_floats :: "pyfloat float_ops" where
  "exact_floats =
     \<lparr>f_nan = Fnan, f_isnan = (\<lambda>x. x = Fnan), f_of_int = (\<lambda>i. Some (Fin (of_int i))),
      f_of_decimal = (\<lambda>d. Fin (decimal_value d)), f_add = exact_add, f_str = exact_str\<rparr>"

text \<open>
  A sheet \<open>Costs\<close> every row of which renders as a short text and is taken as a header,
  so that the fallback keeps the sheet as the one table, and the processor after
  loading the workbook of that sheet.
\<close>

definition notes_table :: "pyfloat DataFrame" where
  "notes_table =
     \<lparr>df_dtypes = [Object, Object, Float64],
      df_rows = [[CStr ''Rent'', CStr ''$1,250.50'', CFloat (Fin 3)],
                 [CStr ''Notes'', CStr ''n/a'', CFloat Fnan],
                 [CStr '' Sales '', CInt 40, CFloat (Fin 2)]]\<rparr>"

definition notes_processor :: "pyfloat ExcelProcessor" where
  "notes_processor =
     \<lparr>file_path = ''capbudg.xls'', sheets_data = [(''Costs'', notes_table)],
      tables = [(''Costs_data'', notes_table)]\<rparr>"

text \<open>
  The tables of the pass, said without the loop: each header row, with the rows that
  are not entirely absent among those between it and the next header row (or the end
  of the grid), when there are any; \<open>commit_all\<close> stores them in that order, a later
  one replacing an earlier one of the same name.
\<close>

fun segments :: "'f float_ops \<Rightarrow> 'f cell list list \<Rightarrow> (string \<times> 'f cell list list) list" where
  "segments fl [] = []"
| "segments fl (r # rs) =
     (if is_potential_table_header (row_str fl r)
      then (let data = filter (\<lambda>x. \<not> list_all (isna fl) x)
                         (takeWhile (\<lambda>x. \<not> is_potential_table_header (row_str fl x)) rs)
            in if data \<noteq> [] then [(py_strip (row_str fl r), data)] else []) @ segments fl rs
      else segments fl rs)"

definition commit_all ::
  "'f float_ops \<Rightarrow> (string \<times> 'f DataFrame) list \<Rightarrow> (string \<times> 'f cell list list) list \<Rightarrow>
   (string \<times> 'f DataFrame) list"
where
  "commit_all fl t segs =
     foldl (\<lambda>acc (name, data). AList.update name (pd_DataFrame fl data) acc) t segs"

text \<open>Sheets on which the segmenter and the queries are run.\<close>

definition untitled_sheet :: "pyfloat DataFrame" where
  "untitled_sheet = \<lparr>df_dtypes = [Object], df_rows = [[CStr ''x''], [CStr ''Revenue'']]\<rparr>"

definition blank_sheet :: "pyfloat DataFrame" where
  "blank_sheet =
     \<lparr>df_dtypes = [Float64, Float64], df_rows = [[CFloat Fnan, CFloat Fnan]]\<rparr>"

definition budget_grid :: "pyfloat cell list list" where
  "budget_grid =
     [[CStr ''x'', CStr ''y''], [CStr ''Revenue'', CFloat Fnan], [CStr ''a'', CStr ''1''],
      [CFloat Fnan, CFloat Fnan], [CStr ''b'', CStr ''2'']]"

definition years_sheet :: "'f \<Rightarrow> 'f \<Rightarrow> 'f DataFrame" where
  "years_sheet half three_halves =
     \<lparr>df_dtypes = [Int64, Float64],
      df_rows = [[CInt 1, CFloat half], [CInt 2, CFloat three_halves]]\<rparr>"

definition plain_sheet :: "pyfloat DataFrame" where
  "plain_sheet =
     \<lparr>df_dtypes = [Object, Object],
      df_rows = [[CStr ''a'', CStr ''1''], [CFloat Fnan, CFloat Fnan], [CStr ''b'', CStr ''2'']]\<rparr>"

definition budget_sheet :: "pyfloat DataFrame" where
  "budget_sheet = \<lparr>df_dtypes = [Object, Object], df_rows = budget_grid\<rparr>"

section \<open>Strings and the header predicate\<close>

lemma py_strip_Nil_iff: "py_strip s = [] \<longleftrightarrow> (\<forall>c\<in>set s. py_isspace c)"
proof
  assume "py_strip s = []"
  then have all: "\<forall>c\<in>set (dropWhile py_isspace s). py_isspace c"
    by (simp add: py_strip_def dropWhile_eq_Nil_conv)
  have "dropWhile py_isspace s = []"
  proof (rule ccontr)
    assume ne: "dropWhile py_isspace s \<noteq> []"
    then have "\<not> py_isspace (hd (dropWhile py_isspace s))"
      by (rule hd_dropWhile)
    moreover have "hd (dropWhile py_isspace s) \<in> set (dropWhile py_isspace s)"
      using ne by simp
    ultimately show False using all by blast
  qed
  then show "\<forall>c\<in>set s. py_isspace c"
    by (simp add: dropWhile_eq_Nil_conv)
next
  assume "\<forall>c\<in>set s. py_isspace c"
  then have "dropWhile py_isspace s = []"
    by (simp add: dropWhile_eq_Nil_conv)
  then show "py_strip s = []"
    by (simp only: py_strip_def rev.simps dropWhile.simps)
qed

lemma py_in_sublist: "py_in k t = sublist k t"
  by (induction t) (auto simp: sublist_Cons_right)

lemma py_in_iff: "py_in k t \<longleftrightarrow> (\<exists>u v. t = u @ k @ v)"
  by (simp add: py_in_sublist sublist_def)

lemma split_from_tokens:
  "\<forall>c\<in>set cur. \<not> py_isspace c \<Longrightarrow>
   concat (split_from cur s) = cur @ filter (\<lambda>c. \<not> py_isspace c) s \<and>
   (\<forall>t\<in>set (split_from cur s). t \<noteq> [] \<and> (\<forall>c\<in>set t. \<not> py_isspace c))"
proof (induction s arbitrary: cur)
  case Nil
  then show ?case by simp
next
  case (Cons a s)
  show ?case
  proof (cases "py_isspace a")
    case True
    have "\<forall>c\<in>set ([]::string). \<not> py_isspace c" by simp
    from Cons.IH [OF this] True Cons.prems show ?thesis by auto
  next
    case False
    with Cons.prems have "\<forall>c\<in>set (cur @ [a]). \<not> py_isspace c" by simp
    from Cons.IH [OF this] False show ?thesis by simp
  qed
qed

lemma py_split_tokens:
  "concat (py_split s) = filter (\<lambda>c. \<not> py_isspace c) s \<and>
   (\<forall>t\<in>set (py_split s). t \<noteq> [] \<and> (\<forall>c\<in>set t. \<not> py_isspace c))"
  using split_from_tokens [of "[]" s] by (simp add: py_split_def)

lemma header_keywords_set:
  "set header_keywords =
     {''investment'', ''revenue'', ''expense'', ''projection'', ''cash flow'',
      ''initial'', ''operating'', ''capital'', ''budget'', ''financial''}"
  by (simp add: header_keywords_def)

lemma header_blank: "\<forall>c\<in>set text. py_isspace c \<Longrightarrow> \<not> is_potential_table_header text"
  by (simp add: is_potential_table_header_def py_strip_Nil_iff)

lemma header_not_blank:
  "\<not> (\<forall>c\<in>set text. py_isspace c) \<Longrightarrow>
   is_potential_table_header text \<longleftrightarrow>
     (\<exists>k\<in>set header_keywords. \<exists>u v. py_lower text = u @ k @ v) \<or>
     (length (py_split text) \<le> 5 \<and> 5 < length text)"
proof -
  assume nb: "\<not> (\<forall>c\<in>set text. py_isspace c)"
  then have "text \<noteq> []" and "py_strip text \<noteq> []"
    by (auto simp: py_strip_Nil_iff)
  then show ?thesis
    by (auto simp: is_potential_table_header_def list_ex_iff py_in_iff)
qed

lemma header_examples:
  "is_potential_table_header ''Cash Flow Summary''"
  "\<not> is_potential_table_header ''Q1 Q2 Q3 Q4 Q5 Q6''"
  "\<not> is_potential_table_header ''''"
  by code_simp+

text \<open>
  Claim C2. \<open>is_potential_table_header\<close> is false on text that is empty or all
  whitespace; on other text it is true when the lower-cased text contains one of the
  ten keywords, and otherwise true exactly when the text has at most 5
  whitespace-separated tokens and more than 5 characters. It is true of
  \<open>Cash Flow Summary\<close> and false of \<open>Q1 Q2 Q3 Q4 Q5 Q6\<close> and of the empty string.
\<close>

theorem C2_header_predicate:
  "((\<forall>c\<in>set text. py_isspace c) \<longrightarrow> \<not> is_potential_table_header text) \<and>
   (\<not> (\<forall>c\<in>set text. py_isspace c) \<and>
      (\<exists>k\<in>{''investment'', ''revenue'', ''expense'', ''projection'', ''cash flow'',
            ''initial'', ''operating'', ''capital'', ''budget'', ''financial''}.
         \<exists>u v. py_lower text = u @ k @ v)
    \<longrightarrow> is_potential_table_header text) \<and>
   (\<not> (\<forall>c\<in>set text. py_isspace c) \<and>
      \<not> (\<exists>k\<in>{''investment'', ''revenue'', ''expense'', ''projection'', ''cash flow'',
              ''initial'', ''operating'', ''capital'', ''budget'', ''financial''}.
           \<exists>u v. py_lower text = u @ k @ v)
    \<longrightarrow> is_potential_table_header text = (length (py_split text) \<le> 5 \<and> 5 < length text)) \<and>
   is_potential_table_header ''Cash Flow Summary'' \<and>
   \<not> is_potential_table_header ''Q1 Q2 Q3 Q4 Q5 Q6'' \<and>
   \<not> is_potential_table_header ''''"
proof -
  have ks: "{''investment'', ''revenue'', ''expense'', ''projection'', ''cash flow'',
             ''initial'', ''operating'', ''capital'', ''budget'', ''financial''}
            = set header_keywords"
    by (simp add: header_keywords_def)
  show ?thesis
    unfolding ks
    using header_blank [of "text"] header_not_blank [of "text"] header_examples
    by blast
qed

theorem C2_header_predicate_witness:
  "\<not> is_potential_table_header ''   '' \<and>
   is_potential_table_header ''Total Revenue by quarter and by region'' \<and>
   is_potential_table_header ''Totals'' \<and>
   \<not> is_potential_table_header ''Total''"
proof -
  have b: "\<forall>c\<in>set ''   ''. py_isspace c" by code_simp
  have nb: "\<not> (\<forall>c\<in>set ''Total Revenue by quarter and by region''. py_isspace c)"
           "\<not> (\<forall>c\<in>set ''Totals''. py_isspace c)"
           "\<not> (\<forall>c\<in>set ''Total''. py_isspace c)"
    by code_simp+
  have k: "py_lower ''Total Revenue by quarter and by region'' = ''total '' @ ''revenue'' @ '' by quarter and by region''"
    by code_simp
  have nk: "\<not> (\<exists>k\<in>{''investment'', ''revenue'', ''expense'', ''projection'', ''cash flow'',
              ''initial'', ''operating'', ''capital'', ''budget'', ''financial''}.
           \<exists>u v. py_lower ''Totals'' = u @ k @ v)"
      "\<not> (\<exists>k\<in>{''investment'', ''revenue'', ''expense'', ''projection'', ''cash flow'',
              ''initial'', ''operating'', ''capital'', ''budget'', ''financial''}.
           \<exists>u v. py_lower ''Total'' = u @ k @ v)"
    unfolding py_in_iff [symmetric] by code_simp+
  have l: "length (py_split ''Totals'') \<le> 5 \<and> 5 < length ''Totals''"
          "\<not> (length (py_split ''Total'') \<le> 5 \<and> 5 < length ''Total'')"
    by code_simp+
  from C2_header_predicate [of "''   ''"] b have 1: "\<not> is_potential_table_header ''   ''"
    by blast
  from C2_header_predicate [of "''Total Revenue by quarter and by region''"] nb(1) k
  have 2: "is_potential_table_header ''Total Revenue by quarter and by region''"
    by blast
  from C2_header_predicate [of "''Totals''"] nb(2) nk(1) l(1)
  have 3: "is_potential_table_header ''Totals''"
    by blast
  from C2_header_predicate [of "''Total''"] nb(3) nk(2) l(2)
  have 4: "\<not> is_potential_table_header ''Total''"
    by blast
  from 1 2 3 4 show ?thesis by blast
qed

section \<open>Numeric coercion\<close>

lemma is_digit_iff: "is_digit c \<longleftrightarrow> c \<in> set ''0123456789''"
proof -
  have "is_digit c \<longleftrightarrow> (of_char c :: nat) \<in> {48, 49, 50, 51, 52, 53, 54, 55, 56, 57}"
    unfolding is_digit_def by auto arith
  also have "\<dots> \<longleftrightarrow> (of_char c :: nat) \<in> of_char ` set ''0123456789''"
    by simp
  also have "\<dots> \<longleftrightarrow> c \<in> set ''0123456789''"
    by (simp only: inj_image_mem_iff [OF inj_of_char])
  finally show ?thesis .
qed

lemma cleaned_keeps: "cleaned s = filter (\<lambda>c. c \<in> set ''0123456789.-'') s"
  unfolding cleaned_def by (rule filter_cong) (auto simp: is_digit_iff)

lemma not_digit_point: "\<not> is_digit CHR ''.''" and not_digit_minus: "\<not> is_digit CHR ''-''"
  by (simp_all add: is_digit_def)

lemma unsigned_digits:
  assumes "list_all is_digit ip" and "ip \<noteq> []"
  shows "unsigned_of_cleaned ip = Some (digits_val ip, 0)"
proof -
  from assms(1) have tw: "takeWhile is_digit ip = ip" and dw: "dropWhile is_digit ip = []"
    by (simp_all add: list_all_iff)
  show ?thesis
    unfolding unsigned_of_cleaned_def Let_def tw dw using assms(2) by simp
qed

lemma unsigned_point:
  assumes "list_all is_digit ip" and "list_all is_digit fp" and "ip \<noteq> [] \<or> fp \<noteq> []"
  shows "unsigned_of_cleaned (ip @ CHR ''.'' # fp) = Some (digits_val (ip @ fp), length fp)"
proof -
  from assms(1) have "takeWhile is_digit (ip @ CHR ''.'' # fp) = ip"
    by (simp add: list_all_iff takeWhile_append2 not_digit_point)
  moreover from assms(1) have "dropWhile is_digit (ip @ CHR ''.'' # fp) = CHR ''.'' # fp"
    by (simp add: list_all_iff dropWhile_append2 not_digit_point)
  ultimately show ?thesis
    unfolding unsigned_of_cleaned_def Let_def using assms(2,3) by simp
qed

lemma unsigned_Some:
  assumes "unsigned_of_cleaned s = Some (m, k)"
  shows "\<exists>ip fp point. list_all is_digit ip \<and> list_all is_digit fp \<and> (ip \<noteq> [] \<or> fp \<noteq> []) \<and>
           (\<not> point \<longrightarrow> fp = []) \<and> s = ip @ (if point then CHR ''.'' # fp else []) \<and>
           m = digits_val (ip @ fp) \<and> k = length fp"
proof -
  let ?ip = "takeWhile is_digit s"
  have ip: "list_all is_digit ?ip"
    by (auto simp: list_all_iff dest: set_takeWhileD)
  have s: "s = ?ip @ dropWhile is_digit s" by simp
  show ?thesis
  proof (cases "dropWhile is_digit s")
    case Nil
    with assms have "?ip \<noteq> []" "m = digits_val ?ip" "k = 0"
      by (auto simp: unsigned_of_cleaned_def Let_def split: if_splits)
    moreover from Nil have "s = ?ip"
      by (metis append_Nil2 takeWhile_dropWhile_id)
    ultimately show ?thesis
      using ip by (intro exI [of _ ?ip] exI [of _ "[]"] exI [of _ False]) auto
  next
    case (Cons c fp)
    with assms have c: "c = CHR ''.''" and fp: "list_all is_digit fp"
      and ne: "?ip \<noteq> [] \<or> fp \<noteq> []" and m: "m = digits_val (?ip @ fp)" and k: "k = length fp"
      by (auto simp: unsigned_of_cleaned_def Let_def split: if_splits)
    from Cons c have "s = ?ip @ CHR ''.'' # fp"
      by (metis takeWhile_dropWhile_id)
    with ip fp ne m k show ?thesis
      by (intro exI [of _ ?ip] exI [of _ fp] exI [of _ True]) auto
  qed
qed

lemma decimal_of_cleaned_iff:
  "decimal_of_cleaned s = Some (neg, m, k) \<longleftrightarrow>
     (\<exists>ip fp point. list_all is_digit ip \<and> list_all is_digit fp \<and> (ip \<noteq> [] \<or> fp \<noteq> []) \<and>
        (\<not> point \<longrightarrow> fp = []) \<and> s = numeral_of neg ip fp point \<and>
        m = digits_val (ip @ fp) \<and> k = length fp)"
  (is "?L \<longleftrightarrow> ?R")
proof
  assume ?L
  show ?R
  proof (cases s)
    case Nil
    with \<open>?L\<close> show ?thesis by (simp add: decimal_of_cleaned_def)
  next
    case (Cons c t)
    show ?thesis
    proof (cases "c = CHR ''-''")
      case True
      with \<open>?L\<close> Cons have neg and "unsigned_of_cleaned t = Some (m, k)"
        by (auto simp: decimal_of_cleaned_def)
      from unsigned_Some [OF this(2)] \<open>neg\<close> Cons True show ?thesis
        by (auto simp: numeral_of_def)
    next
      case False
      with \<open>?L\<close> Cons have "\<not> neg" and "unsigned_of_cleaned s = Some (m, k)"
        by (auto simp: decimal_of_cleaned_def)
      from unsigned_Some [OF this(2)] \<open>\<not> neg\<close> show ?thesis
        by (auto simp: numeral_of_def)
    qed
  qed
next
  assume ?R
  then obtain ip fp point where ip: "list_all is_digit ip" and fp: "list_all is_digit fp"
    and ne: "ip \<noteq> [] \<or> fp \<noteq> []" and pt: "\<not> point \<longrightarrow> fp = []"
    and s: "s = numeral_of neg ip fp point"
    and m: "m = digits_val (ip @ fp)" and k: "k = length fp"
    by blast
  let ?u = "ip @ (if point then CHR ''.'' # fp else [])"
  have u: "unsigned_of_cleaned ?u = Some (m, k)"
  proof (cases point)
    case True
    with unsigned_point [OF ip fp ne] m k show ?thesis by simp
  next
    case False
    with pt ne have "fp = []" "ip \<noteq> []" by auto
    with unsigned_digits [OF ip] False m k show ?thesis by simp
  qed
  have hd: "?u \<noteq> [] \<and> hd ?u \<noteq> CHR ''-''"
  proof (cases ip)
    case Nil
    with ne pt have point by auto
    with Nil show ?thesis by simp
  next
    case (Cons d ds)
    with ip have "is_digit d" by simp
    with Cons show ?thesis by (auto simp: not_digit_minus)
  qed
  show ?L
  proof (cases neg)
    case True
    with s u show ?thesis by (simp add: decimal_of_cleaned_def numeral_of_def)
  next
    case False
    with s have "s = ?u" by (simp add: numeral_of_def)
    with hd u False show ?thesis
      by (cases ?u) (auto simp: decimal_of_cleaned_def)
  qed
qed


lemma float_of_cleaned_iff:
  "float_of_cleaned fl t = Some z \<longleftrightarrow>
     (\<exists>neg ip fp point. set ip \<subseteq> set ''0123456789'' \<and> set fp \<subseteq> set ''0123456789'' \<and>
        (ip \<noteq> [] \<or> fp \<noteq> []) \<and> (\<not> point \<longrightarrow> fp = []) \<and> t = numeral_of neg ip fp point \<and>
        z = f_of_decimal fl (neg, digits_val (ip @ fp), length fp))"
proof -
  have d: "list_all is_digit u \<longleftrightarrow> set u \<subseteq> set ''0123456789''" for u
    unfolding list_all_iff by (meson is_digit_iff subsetD subsetI)
  have "float_of_cleaned fl t = Some z \<longleftrightarrow>
          (\<exists>neg m k. decimal_of_cleaned t = Some (neg, m, k) \<and> z = f_of_decimal fl (neg, m, k))"
    by (auto simp: float_of_cleaned_def)
  also have "\<dots> \<longleftrightarrow>
     (\<exists>neg ip fp point. list_all is_digit ip \<and> list_all is_digit fp \<and>
        (ip \<noteq> [] \<or> fp \<noteq> []) \<and> (\<not> point \<longrightarrow> fp = []) \<and> t = numeral_of neg ip fp point \<and>
        z = f_of_decimal fl (neg, digits_val (ip @ fp), length fp))"
    unfolding decimal_of_cleaned_iff by blast
  finally show ?thesis unfolding d .
qed

lemma coerce_texts:
  "cleaned ''12-3'' = ''12-3''" "decimal_of_cleaned ''12-3'' = None"
  "cleaned ''$2,000'' = ''2000''" "decimal_of_cleaned ''2000'' = Some (False, 2000, 0)"
  "cleaned ''(1.25)'' = ''1.25''" "decimal_of_cleaned ''1.25'' = Some (False, 125, 2)"
  "cleaned ''-3.5%'' = ''-3.5''" "decimal_of_cleaned ''-3.5'' = Some (True, 35, 1)"
  "cleaned ''15%'' = ''15''" "decimal_of_cleaned ''15'' = Some (False, 15, 0)"
  "cleaned ''abc'' = []" "cleaned ''n/a'' = []"
  by code_simp+

lemma extract_text:
  "extract_numeric_value fl (CStr ''12-3'') = Inr None"
  "extract_numeric_value fl (CStr ''$2,000'') = Inr (Some (f_of_decimal fl (False, 2000, 0)))"
  "extract_numeric_value fl (CStr ''(1.25)'') = Inr (Some (f_of_decimal fl (False, 125, 2)))"
  "extract_numeric_value fl (CStr ''-3.5%'') = Inr (Some (f_of_decimal fl (True, 35, 1)))"
  "extract_numeric_value fl (CStr ''15%'') = Inr (Some (f_of_decimal fl (False, 15, 0)))"
  "extract_numeric_value fl (CStr ''abc'') = Inr None"
  "extract_numeric_value fl (CStr ''n/a'') = Inr None"
  by (simp_all add: coerce_texts float_of_cleaned_def)

lemma absent_skipped:
  "isna fl v \<Longrightarrow> sum_loop fl numerical_sum (v # rest) = sum_loop fl numerical_sum rest"
  by simp

text \<open>
  Claim C4. \<open>_extract_numeric_value\<close> returns a number as a float: \<open>float(i)\<close> for an
  integer (where that is defined) and a float as it is. Of a text it keeps the digits,
  the points and the minus signs; the result is the float that the kept characters
  parse as, and none when nothing is kept or they do not parse. The kept characters
  parse exactly when they are a numeral: an optional minus sign, digits with at most
  one point, at least one digit. An absent cell is not coerced: the summation passes
  over it and it contributes nothing. \<open>12-3\<close> is kept whole, does not parse and is not
  coercible, while \<open>$2,000\<close>, \<open>(1.25)\<close> and \<open>-3.5%\<close> give the floats of 2000, 1.25
  and -3.5.
\<close>

theorem C4_coerce:
  "(f_of_int fl i = Some x \<longrightarrow> extract_numeric_value fl (CInt i) = Inr (Some x)) \<and>
   (\<not> f_isnan fl y \<longrightarrow> extract_numeric_value fl (CFloat y) = Inr (Some y)) \<and>
   extract_numeric_value fl (CStr s) =
     Inr (if filter (\<lambda>c. c \<in> set ''0123456789.-'') s = [] then None
          else float_of_cleaned fl (filter (\<lambda>c. c \<in> set ''0123456789.-'') s)) \<and>
   (float_of_cleaned fl t = Some z \<longleftrightarrow>
     (\<exists>neg ip fp point. set ip \<subseteq> set ''0123456789'' \<and> set fp \<subseteq> set ''0123456789'' \<and>
        (ip \<noteq> [] \<or> fp \<noteq> []) \<and> (\<not> point \<longrightarrow> fp = []) \<and> t = numeral_of neg ip fp point \<and>
        z = f_of_decimal fl (neg, digits_val (ip @ fp), length fp))) \<and>
   (isna fl v \<longrightarrow>
      coerced fl v = None \<and>
      sum_loop fl numerical_sum (v # rest) = sum_loop fl numerical_sum rest) \<and>
   filter (\<lambda>c. c \<in> set ''0123456789.-'') ''12-3'' = ''12-3'' \<and>
   float_of_cleaned fl ''12-3'' = None \<and>
   extract_numeric_value fl (CStr ''12-3'') = Inr None \<and>
   extract_numeric_value fl (CStr ''$2,000'') = Inr (Some (f_of_decimal fl (False, 2000, 0))) \<and>
   extract_numeric_value fl (CStr ''(1.25)'') = Inr (Some (f_of_decimal fl (False, 125, 2))) \<and>
   extract_numeric_value fl (CStr ''-3.5%'') = Inr (Some (f_of_decimal fl (True, 35, 1))) \<and>
   extract_numeric_value fl (CStr ''abc'') = Inr None"
proof -
  have 1: "f_of_int fl i = Some x \<longrightarrow> extract_numeric_value fl (CInt i) = Inr (Some x)"
    by simp
  have 2: "extract_numeric_value fl (CStr s) =
     Inr (if filter (\<lambda>c. c \<in> set ''0123456789.-'') s = [] then None
          else float_of_cleaned fl (filter (\<lambda>c. c \<in> set ''0123456789.-'') s))"
    unfolding cleaned_keeps [symmetric] by simp
  have 3: "isna fl v \<longrightarrow>
      coerced fl v = None \<and>
      sum_loop fl numerical_sum (v # rest) = sum_loop fl numerical_sum rest"
    by (simp add: coerced_def)
  have 4: "filter (\<lambda>c. c \<in> set ''0123456789.-'') ''12-3'' = ''12-3''"
    unfolding cleaned_keeps [symmetric] by (rule coerce_texts)
  have 5: "float_of_cleaned fl ''12-3'' = None"
    by (simp add: float_of_cleaned_def coerce_texts)
  from 1 2 3 4 5 float_of_cleaned_iff [of fl t z] extract_text [of fl]
  show ?thesis by simp
qed


lemma exact_floats_simps [simp]:
  "f_nan exact_floats = Fnan" "f_isnan exact_floats x = (x = Fnan)"
  "f_of_int exact_floats i = Some (Fin (of_int i))"
  "f_of_decimal exact_floats d = Fin (decimal_value d)"
  "f_add exact_floats = exact_add" "f_str exact_floats = exact_str"
  by (simp_all add: exact_floats_def)

theorem C4_coerce_witness:
  "extract_numeric_value exact_floats (CInt 1000) = Inr (Some (Fin 1000)) \<and>
   extract_numeric_value exact_floats (CFloat (Fin 3)) = Inr (Some (Fin 3)) \<and>
   sum_loop exact_floats (PInt 0) [CFloat Fnan] = Inr (PInt 0) \<and>
   float_of_cleaned exact_floats ''-3.5'' = Some (Fin (- 7 / 2))"
proof -
  have dv: "digits_val ''35'' = 35" by code_simp
  have "\<exists>neg ip fp point. set ip \<subseteq> set ''0123456789'' \<and> set fp \<subseteq> set ''0123456789'' \<and>
        (ip \<noteq> [] \<or> fp \<noteq> []) \<and> (\<not> point \<longrightarrow> fp = []) \<and> ''-3.5'' = numeral_of neg ip fp point \<and>
        Fin (- 7 / 2) = f_of_decimal exact_floats (neg, digits_val (ip @ fp), length fp)"
    by (rule exI [of _ True], rule exI [of _ "''3''"], rule exI [of _ "''5''"],
        rule exI [of _ True])
       (simp add: numeral_of_def dv)
  with C4_coerce [of exact_floats 1000 "Fin 1000" "Fin 3" "[]" "''-3.5''" "Fin (- 7 / 2)"
      "CFloat Fnan" "PInt 0" "[]"]
  show ?thesis by simp
qed

section \<open>Row sums\<close>









section \<open>The example row\<close>








lemma notes_strings:
  "py_strip ''Rent'' = ''Rent''" "py_strip ''Notes'' = ''Notes''" "py_strip '' Sales '' = ''Sales''"
  by code_simp+

lemma notes_lookup: "map_of (tables notes_processor) ''Costs_data'' = Some notes_table"
  by (simp add: notes_processor_def)


section \<open>Row labels\<close>

lemma row_names_loop_eq:
  "row_names_loop fl row_names vs =
     row_names @ map (\<lambda>v. py_strip (py_str fl v))
       (filter (\<lambda>v. \<not> isna fl v \<and> py_strip (py_str fl v) \<noteq> []) vs)"
  by (induction vs arbitrary: row_names) auto

lemma first_cells_empty:
  "wf_DataFrame df \<Longrightarrow> df_empty df \<Longrightarrow> first_cells df = []"
  by (auto simp: wf_DataFrame_def df_empty_def first_cells_def list_all_iff)

lemma concat_take1: "[] \<notin> set rs \<Longrightarrow> concat (map (take 1) rs) = map hd rs"
proof (induction rs)
  case Nil
  show ?case by simp
next
  case (Cons r rs)
  then show ?case by (cases r) auto
qed

lemma first_cells_column:
  "wf_DataFrame df \<Longrightarrow> \<not> df_empty df \<Longrightarrow> first_cells df = first_column df"
  unfolding first_cells_def first_column_def
  by (rule concat_take1) (auto simp: wf_DataFrame_def df_empty_def list_all_iff)

lemma get_table_row_names_found:
  assumes "map_of (tables p) table_name = Some table_df" and "wf_DataFrame table_df"
  shows "get_table_row_names fl p table_name =
           Inr (map (\<lambda>v. py_strip (py_str fl v))
             (filter (\<lambda>v. \<not> isna fl v \<and> py_strip (py_str fl v) \<noteq> []) (first_cells table_df)))"
proof (cases "df_empty table_df")
  case True
  with assms show ?thesis
    by (simp add: get_table_row_names_def first_cells_empty)
next
  case False
  with assms show ?thesis
    by (simp add: get_table_row_names_def first_cells_column row_names_loop_eq)
qed

text \<open>
  Claim C6. For a table of the registry \<open>get_table_row_names\<close> returns the trimmed
  string forms of the first cells of the rows, in the order of the rows, leaving out
  the rows whose first cell is absent or whose trimmed string form is empty. For a
  name that is not in the registry it raises the \<open>ValueError\<close> that the endpoint
  answers with status 404.
\<close>

theorem C6_list_row_labels:
  "(map_of (tables p) table_name = Some table_df \<and> wf_DataFrame table_df
    \<longrightarrow> get_table_row_names fl p table_name =
          Inr (map (\<lambda>v. py_strip (py_str fl v))
            (filter (\<lambda>v. \<not> isna fl v \<and> py_strip (py_str fl v) \<noteq> []) (first_cells table_df)))) \<and>
   (table_name \<notin> fst ` set (tables p)
    \<longrightarrow> get_table_row_names fl p table_name = Inl (table_not_found table_name) \<and>
        get_table_details fl (Some p) table_name =
          Inl (HTTPException 404 (error_str (table_not_found table_name))))"
proof -
  have absent: "get_table_row_names fl p table_name = Inl (table_not_found table_name)"
    if "table_name \<notin> fst ` set (tables p)"
  proof -
    from that have "map_of (tables p) table_name = None"
      by (simp add: map_of_eq_None_iff)
    then show ?thesis by (simp add: get_table_row_names_def)
  qed
  then have "get_table_details fl (Some p) table_name =
          Inl (HTTPException 404 (error_str (table_not_found table_name)))"
    if "table_name \<notin> fst ` set (tables p)"
    using that by (simp add: get_table_details_def table_not_found_def)
  with absent get_table_row_names_found [of p table_name table_df fl]
  show ?thesis by blast
qed

theorem C6_list_row_labels_witness:
  "get_table_row_names exact_floats notes_processor ''Costs_data'' = Inr [''Rent'', ''Notes'', ''Sales''] \<and>
   get_table_row_names exact_floats notes_processor ''Revenue'' =
     Inl (table_not_found ''Revenue'') \<and>
   get_table_details exact_floats (Some notes_processor) ''Revenue'' =
     Inl (HTTPException 404 (error_str (table_not_found ''Revenue'')))"
proof -
  have wf: "wf_DataFrame notes_table"
    by (simp add: wf_DataFrame_def notes_table_def)
  have fc: "first_cells notes_table = [CStr ''Rent'', CStr ''Notes'', CStr '' Sales '']"
    by (simp add: first_cells_def notes_table_def)
  have absent: "''Revenue'' \<notin> fst ` set (tables notes_processor)"
    by (simp add: notes_processor_def)
  from C6_list_row_labels [of notes_processor "''Costs_data''" notes_table exact_floats]
    C6_list_row_labels [of notes_processor "''Revenue''" notes_table exact_floats]
  show ?thesis
    by (simp add: notes_lookup wf fc absent notes_strings)
qed

section \<open>The pass of the segmenter\<close>

lemma header_strip: "is_potential_table_header s \<Longrightarrow> py_strip s \<noteq> []"
  by (auto simp: is_potential_table_header_def split: if_splits)

lemma row_str_absent: "list_all (isna fl) r \<Longrightarrow> row_str fl r = []"
  by (simp add: row_str_def list_all_iff)

lemma absent_not_header: "list_all (isna fl) r \<Longrightarrow> \<not> is_potential_table_header (row_str fl r)"
  by (simp add: row_str_absent is_potential_table_header_def)

lemma commit_all_append:
  "commit_all fl t (xs @ ys) = commit_all fl (commit_all fl t xs) ys"
  by (simp add: commit_all_def)

lemma save_table_commit:
  "n \<noteq> [] \<Longrightarrow>
   save_table fl (t, Some n, d) = commit_all fl t (if d \<noteq> [] then [(n, d)] else [])"
  by (simp add: commit_all_def)

lemma scan_named:
  "n \<noteq> [] \<Longrightarrow>
   save_table fl (foldl (scan_step fl) (t, Some n, d) grid) =
     commit_all fl t
       ((let data = d @ filter (\<lambda>x. \<not> list_all (isna fl) x)
                      (takeWhile (\<lambda>x. \<not> is_potential_table_header (row_str fl x)) grid)
         in if data \<noteq> [] then [(n, data)] else []) @ segments fl grid)"
proof (induction grid arbitrary: t n d)
  case Nil
  then show ?case by (simp add: commit_all_def)
next
  case (Cons r rs)
  show ?case
  proof (cases "is_potential_table_header (row_str fl r)")
    case True
    from header_strip [OF True] have ne: "py_strip (row_str fl r) \<noteq> []" .
    have "save_table fl (foldl (scan_step fl) (t, Some n, d) (r # rs)) =
          save_table fl (foldl (scan_step fl)
            (save_table fl (t, Some n, d), Some (py_strip (row_str fl r)), []) rs)"
      using True by simp
    also have "\<dots> = commit_all fl (save_table fl (t, Some n, d))
        ((let data = [] @ filter (\<lambda>x. \<not> list_all (isna fl) x)
                      (takeWhile (\<lambda>x. \<not> is_potential_table_header (row_str fl x)) rs)
          in if data \<noteq> [] then [(py_strip (row_str fl r), data)] else []) @ segments fl rs)"
      by (rule Cons.IH [OF ne])
    also have "\<dots> = commit_all fl (commit_all fl t (if d \<noteq> [] then [(n, d)] else []))
        (segments fl (r # rs))"
      using True by (simp add: save_table_commit [OF Cons.prems] del: save_table.simps)
    also have "\<dots> = commit_all fl t ((if d \<noteq> [] then [(n, d)] else []) @ segments fl (r # rs))"
      by (simp only: commit_all_append)
    finally show ?thesis using True by simp
  next
    case False
    show ?thesis
    proof (cases "list_all (isna fl) r")
      case True
      with False Cons.IH [OF Cons.prems, of t d] show ?thesis by simp
    next
      case nb: False
      with False Cons.prems Cons.IH [OF Cons.prems, of t "d @ [r]"] show ?thesis by simp
    qed
  qed
qed

lemma scan_unnamed:
  "save_table fl (foldl (scan_step fl) (t, None, d) grid) = commit_all fl t (segments fl grid)"
proof (induction grid)
  case Nil
  show ?case by (simp add: commit_all_def)
next
  case (Cons r rs)
  show ?case
  proof (cases "is_potential_table_header (row_str fl r)")
    case True
    from scan_named [OF header_strip [OF True], of fl t "[]" rs] True
    show ?thesis by simp
  next
    case False
    with Cons.IH show ?thesis by simp
  qed
qed

lemma scan_tables_segments: "scan_tables fl grid = commit_all fl [] (segments fl grid)"
  by (simp add: scan_tables_def scan_unnamed)

lemma map_of_commit_all:
  "map_of (commit_all fl t segs) n =
     (case map_of (rev segs) n of None \<Rightarrow> map_of t n | Some d \<Rightarrow> Some (pd_DataFrame fl d))"
proof (induction segs arbitrary: t)
  case Nil
  show ?case by (simp add: commit_all_def)
next
  case (Cons s segs)
  obtain m d where s: "s = (m, d)" by (cases s)
  have "commit_all fl t (s # segs) = commit_all fl (AList.update m (pd_DataFrame fl d) t) segs"
    by (simp add: commit_all_def s)
  then show ?case
    by (simp add: Cons.IH s update_conv' map_add_def split: option.split)
qed

lemma segments_elem:
  "(n, d) \<in> set (segments fl grid) \<Longrightarrow>
   \<exists>pre h post. grid = pre @ h # post \<and> is_potential_table_header (row_str fl h) \<and>
     n = py_strip (row_str fl h) \<and>
     d = filter (\<lambda>x. \<not> list_all (isna fl) x)
           (takeWhile (\<lambda>x. \<not> is_potential_table_header (row_str fl x)) post) \<and>
     d \<noteq> []"
proof (induction grid)
  case Nil
  then show ?case by simp
next
  case (Cons r rs)
  let ?data = "filter (\<lambda>x. \<not> list_all (isna fl) x)
                 (takeWhile (\<lambda>x. \<not> is_potential_table_header (row_str fl x)) rs)"
  show ?case
  proof (cases "is_potential_table_header (row_str fl r) \<and> ?data \<noteq> [] \<and>
                (n, d) = (py_strip (row_str fl r), ?data)")
    case True
    then show ?thesis by (intro exI [of _ "[]"] exI [of _ r] exI [of _ rs]) simp
  next
    case False
    with Cons.prems have "(n, d) \<in> set (segments fl rs)"
      by (auto simp: Let_def split: if_splits)
    from Cons.IH [OF this] obtain pre h post where "rs = pre @ h # post"
      and rest: "is_potential_table_header (row_str fl h)" "n = py_strip (row_str fl h)"
        "d = filter (\<lambda>x. \<not> list_all (isna fl) x)
           (takeWhile (\<lambda>x. \<not> is_potential_table_header (row_str fl x)) post)" "d \<noteq> []"
      by blast
    then have "r # rs = (r # pre) @ h # post" by simp
    with rest show ?thesis by blast
  qed
qed

lemma segments_no_header:
  "\<forall>r\<in>set pre. \<not> is_potential_table_header (row_str fl r) \<Longrightarrow>
   segments fl (pre @ rest) = segments fl rest"
  by (induction pre) simp_all

lemma takeWhile_filter_absent:
  "filter (\<lambda>x. \<not> list_all (isna fl) x)
     (takeWhile (\<lambda>x. \<not> is_potential_table_header (row_str fl x))
        (filter (\<lambda>x. \<not> list_all (isna fl) x) rs)) =
   filter (\<lambda>x. \<not> list_all (isna fl) x)
     (takeWhile (\<lambda>x. \<not> is_potential_table_header (row_str fl x)) rs)"
  by (induction rs) (auto simp: absent_not_header)

lemma segments_drop_absent:
  "segments fl (filter (\<lambda>x. \<not> list_all (isna fl) x) grid) = segments fl grid"
  by (induction grid) (auto simp: absent_not_header takeWhile_filter_absent Let_def)

lemma sheet_strings:
  "\<not> is_potential_table_header ''x''" "is_potential_table_header ''Revenue''"
  "py_strip ''Revenue'' = ''Revenue''" "\<not> is_potential_table_header []"
  "\<not> is_potential_table_header ''x y''" "\<not> is_potential_table_header ''a 1''"
  "\<not> is_potential_table_header ''b 2''"
  by code_simp+

lemma untitled_rows:
  "iterrows exact_floats untitled_sheet = [[CStr ''x''], [CStr ''Revenue'']]"
  by (simp add: untitled_sheet_def iterrows_def common_dtype_def)

lemma untitled_scan: "scan_tables exact_floats (iterrows exact_floats untitled_sheet) = []"
  by (simp add: scan_tables_segments untitled_rows row_str_def sheet_strings commit_all_def)

text \<open>
  Claim C1 says that the rows before the first header never appear in any table. In
  a sheet of the two rows \<open>x\<close> and \<open>Revenue\<close> the second row is the only header and no
  row follows it, so the pass saves nothing and the fallback makes one table of both
  rows: the row \<open>x\<close>, before the first header, is in it.
\<close>

theorem C1_fallback_counterexample:
  "extract_tables_from_sheet exact_floats untitled_sheet ''S'' = [(''S_data'', untitled_sheet)] \<and>
   iterrows exact_floats untitled_sheet = [[CStr ''x''], [CStr ''Revenue'']] \<and>
   df_rows untitled_sheet = [[CStr ''x''], [CStr ''Revenue'']] \<and>
   \<not> is_potential_table_header (row_str exact_floats [CStr ''x'']) \<and>
   is_potential_table_header (row_str exact_floats [CStr ''Revenue''])"
proof -
  have "dropna_all exact_floats untitled_sheet = untitled_sheet"
    by (simp add: dropna_all_def untitled_sheet_def)
  moreover have "\<not> df_empty untitled_sheet"
    by (simp add: df_empty_def untitled_sheet_def)
  ultimately have "extract_tables_from_sheet exact_floats untitled_sheet ''S'' =
      [(''S_data'', untitled_sheet)]"
    by (simp add: extract_tables_from_sheet_def untitled_scan)
  then show ?thesis
    by (simp add: untitled_rows row_str_def sheet_strings) (simp add: untitled_sheet_def)
qed

lemma extract_tables_cases:
  "extract_tables_from_sheet fl df sheet_name =
     (if scan_tables fl (iterrows fl df) \<noteq> [] then scan_tables fl (iterrows fl df)
      else if df_empty (dropna_all fl df) then []
      else [(sheet_name @ ''_data'', dropna_all fl df)])"
  by (simp add: extract_tables_from_sheet_def Let_def)

text \<open>
  Claim C1, amended. In the pass over the rows, a header row saves the accumulated
  table when a name is set and rows have accumulated (under a name already present
  the new table replaces the old one), makes its trimmed rendering the current name
  and empties the accumulator; any other row is appended, as it is, when a name is set
  and the row is not entirely absent; after the last row the accumulated table is
  saved under the same conditions. The tables of the pass are therefore those of
  \<open>segments\<close>: every one of them is named by a header row and holds the rows, not
  entirely absent, between that header row and the next, there being at least one,
  and the last table of a name is the one kept. Rows before the first header and
  entirely absent rows change nothing: they are in no table of the pass. The result
  of the segmenter is the tables of the pass when there are any; otherwise it is the
  fallback table, of all rows that are not entirely absent (rows before the first
  header and header rows among them), or nothing when there is no such row.
\<close>

theorem C1_segmenter_pass:
  "(is_potential_table_header (row_str fl row)
    \<longrightarrow> scan_step fl (t, name, data) row =
          (save_table fl (t, name, data), Some (py_strip (row_str fl row)), [])) \<and>
   (\<not> is_potential_table_header (row_str fl row)
    \<longrightarrow> scan_step fl (t, name, data) row =
          (t, name, if truthy name \<and> \<not> list_all (isna fl) row then data @ [row] else data)) \<and>
   (data \<noteq> [] \<and> nm \<noteq> []
    \<longrightarrow> save_table fl (t, Some nm, data) = AList.update nm (pd_DataFrame fl data) t) \<and>
   (data = [] \<or> name = None \<or> name = Some []
    \<longrightarrow> save_table fl (t, name, data) = t) \<and>
   scan_tables fl grid = commit_all fl [] (segments fl grid) \<and>
   map_of (scan_tables fl grid) n = map_option (pd_DataFrame fl) (map_of (rev (segments fl grid)) n) \<and>
   (\<forall>(n, d)\<in>set (segments fl grid).
      \<exists>pre h post. grid = pre @ h # post \<and> is_potential_table_header (row_str fl h) \<and>
        n = py_strip (row_str fl h) \<and>
        d = filter (\<lambda>x. \<not> list_all (isna fl) x)
              (takeWhile (\<lambda>x. \<not> is_potential_table_header (row_str fl x)) post) \<and>
        d \<noteq> []) \<and>
   ((\<forall>r\<in>set before. \<not> is_potential_table_header (row_str fl r))
    \<longrightarrow> scan_tables fl (before @ grid) = scan_tables fl grid) \<and>
   scan_tables fl (filter (\<lambda>x. \<not> list_all (isna fl) x) grid) = scan_tables fl grid \<and>
   extract_tables_from_sheet fl df sheet_name =
     (if scan_tables fl (iterrows fl df) \<noteq> [] then scan_tables fl (iterrows fl df)
      else if df_empty (dropna_all fl df) then []
      else [(sheet_name @ ''_data'', dropna_all fl df)])"
proof -
  have 1: "is_potential_table_header (row_str fl row)
    \<longrightarrow> scan_step fl (t, name, data) row =
          (save_table fl (t, name, data), Some (py_strip (row_str fl row)), [])"
    by simp
  have 2: "\<not> is_potential_table_header (row_str fl row)
    \<longrightarrow> scan_step fl (t, name, data) row =
          (t, name, if truthy name \<and> \<not> list_all (isna fl) row then data @ [row] else data)"
    by simp
  have 3: "data \<noteq> [] \<and> nm \<noteq> []
    \<longrightarrow> save_table fl (t, Some nm, data) = AList.update nm (pd_DataFrame fl data) t"
    by simp
  have 4: "data = [] \<or> name = None \<or> name = Some [] \<longrightarrow> save_table fl (t, name, data) = t"
    by auto
  have 6: "map_of (scan_tables fl grid) n =
             map_option (pd_DataFrame fl) (map_of (rev (segments fl grid)) n)"
    by (simp add: scan_tables_segments map_of_commit_all split: option.split)
  have 7: "\<forall>(n, d)\<in>set (segments fl grid).
      \<exists>pre h post. grid = pre @ h # post \<and> is_potential_table_header (row_str fl h) \<and>
        n = py_strip (row_str fl h) \<and>
        d = filter (\<lambda>x. \<not> list_all (isna fl) x)
              (takeWhile (\<lambda>x. \<not> is_potential_table_header (row_str fl x)) post) \<and>
        d \<noteq> []"
    using segments_elem [of _ _ fl grid] by blast
  have 8: "(\<forall>r\<in>set before. \<not> is_potential_table_header (row_str fl r))
    \<longrightarrow> scan_tables fl (before @ grid) = scan_tables fl grid"
    by (simp add: scan_tables_segments segments_no_header)
  have 9: "scan_tables fl (filter (\<lambda>x. \<not> list_all (isna fl) x) grid) = scan_tables fl grid"
    by (simp add: scan_tables_segments segments_drop_absent)
  from 1 2 3 4 6 7 8 9 scan_tables_segments [of fl grid] extract_tables_cases [of fl df sheet_name]
  show ?thesis by (intro conjI)
qed

lemma budget_segments:
  "segments exact_floats budget_grid =
     [(''Revenue'', [[CStr ''a'', CStr ''1''], [CStr ''b'', CStr ''2'']])]"
  by (simp add: budget_grid_def row_str_def sheet_strings)

theorem C1_segmenter_pass_witness:
  "save_table exact_floats ([], None, []) = [] \<and>
   scan_step exact_floats ([], None, []) [CStr ''Revenue'', CFloat Fnan] =
     ([], Some ''Revenue'', []) \<and>
   scan_step exact_floats ([], Some ''Revenue'', []) [CStr ''a'', CStr ''1''] =
     ([], Some ''Revenue'', [[CStr ''a'', CStr ''1'']]) \<and>
   save_table exact_floats ([], Some ''Revenue'', [[CStr ''a'', CStr ''1'']]) =
     [(''Revenue'', pd_DataFrame exact_floats [[CStr ''a'', CStr ''1'']])] \<and>
   scan_tables exact_floats budget_grid =
     [(''Revenue'', pd_DataFrame exact_floats [[CStr ''a'', CStr ''1''], [CStr ''b'', CStr ''2'']])] \<and>
   scan_tables exact_floats ([[CStr ''x'']] @ budget_grid) = scan_tables exact_floats budget_grid \<and>
   (\<exists>pre h post. budget_grid = pre @ h # post \<and>
      is_potential_table_header (row_str exact_floats h) \<and>
      ''Revenue'' = py_strip (row_str exact_floats h) \<and>
      [[CStr ''a'', CStr ''1''], [CStr ''b'', CStr ''2'']] =
        filter (\<lambda>x. \<not> list_all (isna exact_floats) x)
          (takeWhile (\<lambda>x. \<not> is_potential_table_header (row_str exact_floats x)) post))"
proof -
  have h: "is_potential_table_header (row_str exact_floats [CStr ''Revenue'', CFloat Fnan])"
    "py_strip (row_str exact_floats [CStr ''Revenue'', CFloat Fnan]) = ''Revenue''"
    "\<not> is_potential_table_header (row_str exact_floats [CStr ''a'', CStr ''1''])"
    "\<forall>r\<in>set [[CStr ''x'']]. \<not> is_potential_table_header (row_str exact_floats r)"
    by (simp_all add: row_str_def sheet_strings)
  note a = C1_segmenter_pass [of exact_floats "[CStr ''Revenue'', CFloat Fnan]" "[]" None "[]"
      "''Revenue''" budget_grid "''Revenue''" "[[CStr ''x'']]" untitled_sheet "''S''"]
  note b = C1_segmenter_pass [of exact_floats "[CStr ''a'', CStr ''1'']" "[]" "Some ''Revenue''" "[]"
      "''Revenue''" budget_grid "''Revenue''" "[[CStr ''x'']]" untitled_sheet "''S''"]
  note c = C1_segmenter_pass [of exact_floats "[CStr ''a'', CStr ''1'']" "[]" "Some ''Revenue''"
      "[[CStr ''a'', CStr ''1'']]"
      "''Revenue''" budget_grid "''Revenue''" "[[CStr ''x'']]" untitled_sheet "''S''"]
  from a [THEN conjunct2, THEN conjunct2, THEN conjunct2, THEN conjunct1]
  have 0: "save_table exact_floats ([], None, []) = []"
    by blast
  from a [THEN conjunct1] h(1,2) 0
  have 1: "scan_step exact_floats ([], None, []) [CStr ''Revenue'', CFloat Fnan] =
     ([], Some ''Revenue'', [])"
    by (simp del: save_table.simps)
  from b [THEN conjunct2, THEN conjunct1] h(3)
  have 2: "scan_step exact_floats ([], Some ''Revenue'', []) [CStr ''a'', CStr ''1''] =
     ([], Some ''Revenue'', [[CStr ''a'', CStr ''1'']])"
    by simp
  from c [THEN conjunct2, THEN conjunct2, THEN conjunct1]
  have 3: "save_table exact_floats ([], Some ''Revenue'', [[CStr ''a'', CStr ''1'']]) =
     [(''Revenue'', pd_DataFrame exact_floats [[CStr ''a'', CStr ''1'']])]"
    by simp
  note rest = a [THEN conjunct2, THEN conjunct2, THEN conjunct2, THEN conjunct2]
  from rest [THEN conjunct1]
  have 4: "scan_tables exact_floats budget_grid =
     [(''Revenue'', pd_DataFrame exact_floats [[CStr ''a'', CStr ''1''], [CStr ''b'', CStr ''2'']])]"
    by (simp add: budget_segments commit_all_def)
  from rest [THEN conjunct2, THEN conjunct2, THEN conjunct2, THEN conjunct1] h(4)
  have 5:
    "scan_tables exact_floats ([[CStr ''x'']] @ budget_grid) = scan_tables exact_floats budget_grid"
    by blast
  from rest [THEN conjunct2, THEN conjunct2, THEN conjunct1]
  have 6: "\<exists>pre h post. budget_grid = pre @ h # post \<and>
      is_potential_table_header (row_str exact_floats h) \<and>
      ''Revenue'' = py_strip (row_str exact_floats h) \<and>
      [[CStr ''a'', CStr ''1''], [CStr ''b'', CStr ''2'']] =
        filter (\<lambda>x. \<not> list_all (isna exact_floats) x)
          (takeWhile (\<lambda>x. \<not> is_potential_table_header (row_str exact_floats x)) post)"
    unfolding budget_segments by simp
  from 0 1 2 3 4 5 6 show ?thesis by (intro conjI)
qed

section \<open>The fallback table\<close>

lemma no_header_no_segments:
  "\<forall>r\<in>set grid. \<not> is_potential_table_header (row_str fl r) \<Longrightarrow> segments fl grid = []"
  using segments_no_header [of grid fl "[]"] by simp

lemma no_header_scan:
  "\<forall>r\<in>set grid. \<not> is_potential_table_header (row_str fl r) \<Longrightarrow> scan_tables fl grid = []"
  by (simp add: scan_tables_segments no_header_no_segments commit_all_def)

lemma fallback_some:
  assumes "wf_DataFrame df"
    and "\<forall>r\<in>set (iterrows fl df). \<not> is_potential_table_header (row_str fl r)"
    and "\<exists>r\<in>set (df_rows df). \<not> list_all (isna fl) r"
  shows "extract_tables_from_sheet fl df sheet_name =
           [(sheet_name @ ''_data'',
             df\<lparr>df_rows := filter (\<lambda>r. \<not> list_all (isna fl) r) (df_rows df)\<rparr>)]"
proof -
  from assms(3) obtain r where r: "r \<in> set (df_rows df)" "\<not> list_all (isna fl) r" by blast
  then have "r \<noteq> []" by auto
  with r(1) assms(1) have "df_dtypes df \<noteq> []"
    by (auto simp: wf_DataFrame_def list_all_iff)
  moreover from r have "filter (\<lambda>r. \<not> list_all (isna fl) r) (df_rows df) \<noteq> []"
    by (auto simp: filter_empty_conv)
  ultimately have "\<not> df_empty (dropna_all fl df)"
    by (simp add: df_empty_def dropna_all_def)
  then show ?thesis
    by (simp add: extract_tables_cases no_header_scan [OF assms(2)] dropna_all_def)
qed

lemma fallback_none:
  assumes "\<forall>r\<in>set (iterrows fl df). \<not> is_potential_table_header (row_str fl r)"
    and "\<forall>r\<in>set (df_rows df). list_all (isna fl) r"
  shows "extract_tables_from_sheet fl df sheet_name = []"
proof -
  from assms(2) have "filter (\<lambda>r. \<not> list_all (isna fl) r) (df_rows df) = []"
    by (simp add: filter_empty_conv)
  then have "df_empty (dropna_all fl df)"
    by (simp add: df_empty_def dropna_all_def)
  then show ?thesis
    by (simp add: extract_tables_cases no_header_scan [OF assms(1)])
qed

text \<open>
  Claim C5 says that a grid without header rows gives exactly one table. A sheet of no
  rows, and a sheet whose only row is entirely absent, have no header row and give no
  table.
\<close>

theorem C5_no_rows_counterexample:
  "extract_tables_from_sheet exact_floats \<lparr>df_dtypes = [], df_rows = []\<rparr> ''Sheet1'' = [] \<and>
   iterrows exact_floats \<lparr>df_dtypes = [], df_rows = []\<rparr> = [] \<and>
   extract_tables_from_sheet exact_floats blank_sheet ''Sheet2'' = [] \<and>
   iterrows exact_floats blank_sheet = [[CFloat Fnan, CFloat Fnan]] \<and>
   \<not> is_potential_table_header (row_str exact_floats [CFloat Fnan, CFloat Fnan])"
proof -
  have 1: "iterrows exact_floats \<lparr>df_dtypes = [], df_rows = []\<rparr> = []"
    by (simp add: iterrows_def)
  have 2: "iterrows exact_floats blank_sheet = [[CFloat Fnan, CFloat Fnan]]"
    by (simp add: iterrows_def blank_sheet_def common_dtype_def)
  have 3: "\<not> is_potential_table_header (row_str exact_floats [CFloat Fnan, CFloat Fnan])"
    by (simp add: row_str_def sheet_strings)
  have "extract_tables_from_sheet exact_floats \<lparr>df_dtypes = [], df_rows = []\<rparr> ''Sheet1'' = []"
    by (rule fallback_none) (simp_all add: 1)
  moreover have "extract_tables_from_sheet exact_floats blank_sheet ''Sheet2'' = []"
    by (rule fallback_none) (simp_all add: 2 3, simp add: blank_sheet_def)
  ultimately show ?thesis using 1 2 3 by simp
qed

text \<open>
  Claim C5, amended. For a frame no row of which is a header candidate, and which has
  a row that is not entirely absent, the segmenter returns exactly one table, named
  by the sheet name followed by \<open>_data\<close>, holding the rows of the frame that are not
  entirely absent, in their order, none taken out as a header. When every row is
  entirely absent, or there is no row, it returns no table.
\<close>

theorem C5_fallback_table:
  "(wf_DataFrame df \<and>
    (\<forall>r\<in>set (iterrows fl df). \<not> is_potential_table_header (row_str fl r)) \<and>
    (\<exists>r\<in>set (df_rows df). \<not> list_all (isna fl) r)
    \<longrightarrow> extract_tables_from_sheet fl df sheet_name =
          [(sheet_name @ ''_data'',
            df\<lparr>df_rows := filter (\<lambda>r. \<not> list_all (isna fl) r) (df_rows df)\<rparr>)]) \<and>
   ((\<forall>r\<in>set (iterrows fl df). \<not> is_potential_table_header (row_str fl r)) \<and>
    (\<forall>r\<in>set (df_rows df). list_all (isna fl) r)
    \<longrightarrow> extract_tables_from_sheet fl df sheet_name = [])"
  using fallback_some [of df fl sheet_name] fallback_none [of fl df sheet_name] by blast

theorem C5_fallback_table_witness:
  "extract_tables_from_sheet exact_floats plain_sheet ''Sheet1'' =
     [(''Sheet1_data'',
       \<lparr>df_dtypes = [Object, Object],
        df_rows = [[CStr ''a'', CStr ''1''], [CStr ''b'', CStr ''2'']]\<rparr>)] \<and>
   extract_tables_from_sheet exact_floats blank_sheet ''Sheet2'' = []"
proof -
  have rows: "iterrows exact_floats plain_sheet =
      [[CStr ''a'', CStr ''1''], [CFloat Fnan, CFloat Fnan], [CStr ''b'', CStr ''2'']]"
    "iterrows exact_floats blank_sheet = [[CFloat Fnan, CFloat Fnan]]"
    by (simp_all add: iterrows_def plain_sheet_def blank_sheet_def common_dtype_def)
  have nh: "\<forall>r\<in>set (iterrows exact_floats plain_sheet).
              \<not> is_potential_table_header (row_str exact_floats r)"
    "\<forall>r\<in>set (iterrows exact_floats blank_sheet).
              \<not> is_potential_table_header (row_str exact_floats r)"
    by (simp_all add: rows row_str_def sheet_strings)
  have wf: "wf_DataFrame plain_sheet"
    by (simp add: wf_DataFrame_def plain_sheet_def)
  have some: "\<exists>r\<in>set (df_rows plain_sheet). \<not> list_all (isna exact_floats) r"
    by (simp add: plain_sheet_def)
  have none: "\<forall>r\<in>set (df_rows blank_sheet). list_all (isna exact_floats) r"
    by (simp add: blank_sheet_def)
  from C5_fallback_table [of plain_sheet exact_floats "''Sheet1''", THEN conjunct1] wf nh(1) some
  have "extract_tables_from_sheet exact_floats plain_sheet ''Sheet1'' =
     [(''Sheet1'' @ ''_data'',
       plain_sheet\<lparr>df_rows := filter (\<lambda>r. \<not> list_all (isna exact_floats) r)
          (df_rows plain_sheet)\<rparr>)]"
    by blast
  moreover
  from C5_fallback_table [of blank_sheet exact_floats "''Sheet2''", THEN conjunct2] nh(2) none
  have "extract_tables_from_sheet exact_floats blank_sheet ''Sheet2'' = []"
    by blast
  ultimately show ?thesis by (simp add: plain_sheet_def)
qed

section \<open>Names of tables\<close>

lemma commit_all_keys: "fst ` set (commit_all fl t segs) = fst ` set t \<union> fst ` set segs"
proof (induction segs arbitrary: t)
  case Nil
  show ?case by (simp add: commit_all_def)
next
  case (Cons s segs)
  obtain m d where s: "s = (m, d)" by (cases s)
  have "commit_all fl t (s # segs) = commit_all fl (AList.update m (pd_DataFrame fl d) t) segs"
    by (simp add: commit_all_def s)
  then show ?case by (auto simp: Cons.IH s dom_update)
qed

lemma dict_update_keys: "fst ` set (dict_update d other) = fst ` set d \<union> fst ` set other"
proof (induction other arbitrary: d)
  case Nil
  show ?case by (simp add: dict_update_def)
next
  case (Cons kv other)
  obtain k v where kv: "kv = (k, v)" by (cases kv)
  have "dict_update d (kv # other) = dict_update (AList.update k v d) other"
    by (simp add: dict_update_def kv)
  then show ?case by (auto simp: Cons.IH kv dom_update)
qed

lemma segments_names:
  assumes "(n, d) \<in> set (segments fl grid)"
  shows "n \<noteq> [] \<and>
         (\<exists>r\<in>set grid. is_potential_table_header (row_str fl r) \<and> n = py_strip (row_str fl r))"
proof -
  from segments_elem [OF assms] obtain pre h post where "grid = pre @ h # post"
    and h: "is_potential_table_header (row_str fl h)" and n: "n = py_strip (row_str fl h)"
    by blast
  then have "h \<in> set grid" by simp
  with h n header_strip [OF h] show ?thesis by auto
qed

lemma extract_names:
  assumes "(n, t) \<in> set (extract_tables_from_sheet fl df sheet_name)"
  shows "n \<noteq> [] \<and>
         (n = sheet_name @ ''_data'' \<or>
          (\<exists>r\<in>set (iterrows fl df).
             is_potential_table_header (row_str fl r) \<and> n = py_strip (row_str fl r)))"
proof (cases "scan_tables fl (iterrows fl df) = []")
  case True
  with assms have "n = sheet_name @ ''_data''"
    by (auto simp: extract_tables_cases split: if_splits)
  then show ?thesis by simp
next
  case False
  with assms have "(n, t) \<in> set (commit_all fl [] (segments fl (iterrows fl df)))"
    by (simp add: extract_tables_cases scan_tables_segments)
  then have "n \<in> fst ` set (commit_all fl [] (segments fl (iterrows fl df)))"
    by force
  then obtain d where "(n, d) \<in> set (segments fl (iterrows fl df))"
    by (auto simp: commit_all_keys)
  from segments_names [OF this] show ?thesis by blast
qed

lemma identify_names:
  "\<forall>n\<in>fst ` set acc. n \<noteq> [] \<Longrightarrow>
   \<forall>n\<in>fst ` set (foldl (\<lambda>acc (sheet_name, df).
        dict_update acc (extract_tables_from_sheet fl df sheet_name)) acc sheets). n \<noteq> []"
proof (induction sheets arbitrary: acc)
  case Nil
  then show ?case by simp
next
  case (Cons s sheets)
  obtain sheet_name df where s: "s = (sheet_name, df)" by (cases s)
  have "\<forall>n\<in>fst ` set (dict_update acc (extract_tables_from_sheet fl df sheet_name)). n \<noteq> []"
    using Cons.prems by (auto simp: dict_update_keys dest!: extract_names)
  from Cons.IH [OF this] show ?case by (simp add: s)
qed

lemma registry_names:
  assumes "initialize_processor fl path file = (Some p, ok)"
  shows "\<forall>n\<in>set (get_table_names p). n \<noteq> []"
proof (cases "file")
  case Missing
  with assms show ?thesis
    by (auto simp: initialize_processor_def new_ExcelProcessor_def get_table_names_def)
next
  case (Unreadable m)
  with assms show ?thesis
    by (auto simp: initialize_processor_def new_ExcelProcessor_def get_table_names_def)
next
  case (Workbook sheets)
  with assms have "tables p = foldl (\<lambda>acc (sheet_name, df).
        dict_update acc (extract_tables_from_sheet fl df sheet_name)) [] (dict_update [] sheets)"
    by (auto simp: initialize_processor_def new_ExcelProcessor_def identify_tables_def)
  with identify_names [of "[]" fl "dict_update [] sheets"] show ?thesis
    by (simp add: get_table_names_def)
qed

text \<open>
  Claim C9. Every table that the segmenter returns for a sheet has a non-empty name:
  the name is the sheet name followed by \<open>_data\<close>, or the trimmed rendering of a row
  that the header predicate accepted, which is not empty since the predicate rejects
  blank text. So have all tables of the registry after start-up.
\<close>

theorem C9_table_names_not_empty:
  "(\<forall>(n, t)\<in>set (extract_tables_from_sheet fl df sheet_name).
      n \<noteq> [] \<and>
      (n = sheet_name @ ''_data'' \<or>
       (\<exists>r\<in>set (iterrows fl df).
          is_potential_table_header (row_str fl r) \<and> n = py_strip (row_str fl r)))) \<and>
   (initialize_processor fl path file = (Some p, ok) \<longrightarrow> (\<forall>n\<in>set (get_table_names p). n \<noteq> []))"
  using extract_names [of _ _ fl df sheet_name] registry_names [of fl path "file" p ok]
  by blast

lemma budget_rows: "iterrows exact_floats budget_sheet = budget_grid"
  by (simp add: budget_sheet_def budget_grid_def iterrows_def common_dtype_def)

lemma budget_tables:
  "extract_tables_from_sheet exact_floats budget_sheet ''S'' =
     [(''Revenue'', pd_DataFrame exact_floats [[CStr ''a'', CStr ''1''], [CStr ''b'', CStr ''2'']])]"
  by (simp add: extract_tables_cases budget_rows scan_tables_segments budget_segments
        commit_all_def)

theorem C9_table_names_not_empty_witness:
  "extract_tables_from_sheet exact_floats budget_sheet ''S'' =
     [(''Revenue'', pd_DataFrame exact_floats [[CStr ''a'', CStr ''1''], [CStr ''b'', CStr ''2'']])] \<and>
   ''Revenue'' \<noteq> [] \<and>
   (\<exists>r\<in>set (iterrows exact_floats budget_sheet).
      is_potential_table_header (row_str exact_floats r) \<and>
      ''Revenue'' = py_strip (row_str exact_floats r)) \<and>
   (\<exists>p. initialize_processor exact_floats ''capbudg.xls'' (Workbook [(''S'', budget_sheet)]) =
          (Some p, True) \<and>
        get_table_names p = [''Revenue''])"
proof -
  let ?p = "\<lparr>file_path = ''capbudg.xls'', sheets_data = [(''S'', budget_sheet)],
             tables = extract_tables_from_sheet exact_floats budget_sheet ''S''\<rparr>"
  have init: "initialize_processor exact_floats ''capbudg.xls'' (Workbook [(''S'', budget_sheet)]) =
          (Some ?p, True)"
    by (simp add: initialize_processor_def new_ExcelProcessor_def identify_tables_def
          dict_update_def budget_tables)
  have names: "get_table_names ?p = [''Revenue'']"
    by (simp add: get_table_names_def budget_tables)
  note inst = C9_table_names_not_empty [of exact_floats budget_sheet "''S''" "''capbudg.xls''"
      "Workbook [(''S'', budget_sheet)]" ?p True]
  from inst [THEN conjunct1] have "''Revenue'' \<noteq> [] \<and>
      (''Revenue'' = ''S'' @ ''_data'' \<or>
       (\<exists>r\<in>set (iterrows exact_floats budget_sheet).
          is_potential_table_header (row_str exact_floats r) \<and>
          ''Revenue'' = py_strip (row_str exact_floats r)))"
    unfolding budget_tables by simp
  then have 1: "''Revenue'' \<noteq> []"
    and 2: "\<exists>r\<in>set (iterrows exact_floats budget_sheet).
      is_potential_table_header (row_str exact_floats r) \<and>
      ''Revenue'' = py_strip (row_str exact_floats r)"
    by simp_all
  from inst [THEN conjunct2] init have "\<forall>n\<in>set (get_table_names ?p). n \<noteq> []"
    by blast
  with init names 1 2 budget_tables show ?thesis by blast
qed

section \<open>The sum of a row without numbers\<close>






section \<open>A failed load\<close>

lemma initialize_failed:
  "initialize_processor fl path Missing = (Some (new_ExcelProcessor path), False)"
  "initialize_processor fl path (Unreadable m) = (Some (new_ExcelProcessor path), False)"
  by (simp_all add: initialize_processor_def)

text \<open>
  Claim C7 expects every query after a failed load to fail as for a service that is
  not available. \<open>initialize_processor\<close> binds the global before it loads the file, so
  that after a failed load the global holds a processor with an empty registry, not
  \<open>None\<close>: listing the tables succeeds with the empty list, and the two other queries
  answer 404 as for an unknown table. The answer 500 for a processor that is not
  initialized is given only while the global is \<open>None\<close>.
\<close>

theorem C7_queries_after_failed_load:
  "initialize_processor (fl :: 'f float_ops) path Missing =
     (Some (new_ExcelProcessor path), False) \<and>
   initialize_processor fl path (Unreadable m) = (Some (new_ExcelProcessor path), False) \<and>
   tables (new_ExcelProcessor path :: 'f ExcelProcessor) = [] \<and>
   list_tables (Some (new_ExcelProcessor path :: 'f ExcelProcessor)) = Inr [] \<and>
   get_table_details fl (Some (new_ExcelProcessor path)) table_name =
     Inl (HTTPException 404 (error_str (table_not_found table_name))) \<and>
   row_sum fl (Some (new_ExcelProcessor path)) table_name row_name =
     Inl (HTTPException 404 (error_str (table_not_found table_name))) \<and>
   list_tables (None :: 'f ExcelProcessor option) =
     Inl (HTTPException 500 ''Excel processor not initialized'') \<and>
   get_table_details fl None table_name =
     Inl (HTTPException 500 ''Excel processor not initialized'') \<and>
   row_sum fl None table_name row_name =
     Inl (HTTPException 500 ''Excel processor not initialized'')"
  by (simp add: initialize_failed new_ExcelProcessor_def list_tables_def get_table_names_def
        get_table_details_def get_table_row_names_def row_sum_def calculate_row_sum_def
        table_not_found_def not_initialized_def)

theorem C7_queries_after_failed_load_witness:
  "fst (initialize_processor exact_floats ''capbudg.xls'' Missing) \<noteq> None \<and>
   list_tables (fst (initialize_processor exact_floats ''capbudg.xls'' Missing)) = Inr [] \<and>
   get_table_details exact_floats (fst (initialize_processor exact_floats ''capbudg.xls'' Missing))
     ''Costs'' = Inl (HTTPException 404 (error_str (table_not_found ''Costs'')))"
  using C7_queries_after_failed_load [of exact_floats "''capbudg.xls''" "''''" "''Costs''" "''Rent''"]
  by simp

section \<open>Labels that the sum does not find\<close>

lemma years_strings:
  "is_potential_table_header ''1.0 0.5''" "is_potential_table_header ''2.0 1.5''"
  "py_strip ''1.0 0.5'' = ''1.0 0.5''" "py_strip ''2.0 1.5'' = ''2.0 1.5''"
  "py_strip ''1.0'' = ''1.0''" "py_strip ''2.0'' = ''2.0''"
  "str_int 1 = ''1''" "str_int 2 = ''2''"
  "py_strip ''1'' = ''1''" "py_strip ''2'' = ''2''"
  by code_simp+

lemma years_tables:
  assumes "f_of_int fl 1 = Some one" "f_of_int fl 2 = Some two"
    and "\<not> f_isnan fl one" "\<not> f_isnan fl two" "\<not> f_isnan fl half" "\<not> f_isnan fl three_halves"
    and "f_str fl one = ''1.0''" "f_str fl two = ''2.0''"
    and "f_str fl half = ''0.5''" "f_str fl three_halves = ''1.5''"
  shows "iterrows fl (years_sheet half three_halves) =
           [[CFloat one, CFloat half], [CFloat two, CFloat three_halves]]"
    and "extract_tables_from_sheet fl (years_sheet half three_halves) ''Sheet1'' =
           [(''Sheet1_data'', years_sheet half three_halves)]"
proof -
  show rows: "iterrows fl (years_sheet half three_halves) =
           [[CFloat one, CFloat half], [CFloat two, CFloat three_halves]]"
    by (simp add: years_sheet_def iterrows_def common_dtype_def assms)
  have "scan_tables fl (iterrows fl (years_sheet half three_halves)) = []"
    by (simp add: scan_tables_segments rows row_str_def assms years_strings commit_all_def)
  moreover have "dropna_all fl (years_sheet half three_halves) = years_sheet half three_halves"
    by (simp add: dropna_all_def years_sheet_def assms)
  moreover have "\<not> df_empty (years_sheet half three_halves)"
    by (simp add: df_empty_def years_sheet_def)
  ultimately show "extract_tables_from_sheet fl (years_sheet half three_halves) ''Sheet1'' =
           [(''Sheet1_data'', years_sheet half three_halves)]"
    by (simp add: extract_tables_cases)
qed

text \<open>
  Claim C10 expects the sum to find every label that the list of labels returns. In
  a sheet of the rows \<open>1, 0.5\<close> and \<open>2, 1.5\<close> the first column is \<open>int64\<close> and the
  second \<open>float64\<close>. Both rows render as short texts (\<open>1.0 0.5\<close>, \<open>2.0 1.5\<close>), so each
  is a header with no row after it, and the fallback keeps the sheet as the one table.
  The labels are read from the first column, as integers: \<open>1\<close> and \<open>2\<close>. The sum
  reads the rows through \<open>iterrows\<close>, where the first cells are the floats \<open>1.0\<close> and
  \<open>2.0\<close>: no row matches the label \<open>1\<close>, and the query answers 404.
\<close>

theorem C10_listed_label_not_found:
  assumes "f_of_int fl 1 = Some one" "f_of_int fl 2 = Some two"
    and "\<not> f_isnan fl one" "\<not> f_isnan fl two" "\<not> f_isnan fl half" "\<not> f_isnan fl three_halves"
    and "f_str fl one = ''1.0''" "f_str fl two = ''2.0''"
    and "f_str fl half = ''0.5''" "f_str fl three_halves = ''1.5''"
  shows "\<exists>p. initialize_processor fl path (Workbook [(''Sheet1'', years_sheet half three_halves)])
           = (Some p, True) \<and>
     get_table_names p = [''Sheet1_data''] \<and>
     get_table_row_names fl p ''Sheet1_data'' = Inr [''1'', ''2''] \<and>
     calculate_row_sum fl p ''Sheet1_data'' ''1'' = Inl (row_not_found ''1'' ''Sheet1_data'') \<and>
     row_sum fl (Some p) ''Sheet1_data'' ''1'' =
       Inl (HTTPException 404 (error_str (row_not_found ''1'' ''Sheet1_data'')))"
proof -
  let ?sheet = "years_sheet half three_halves"
  let ?p = "\<lparr>file_path = path, sheets_data = [(''Sheet1'', ?sheet)],
             tables = [(''Sheet1_data'', ?sheet)]\<rparr>"
  note yt = years_tables [OF assms]
  have init: "initialize_processor fl path (Workbook [(''Sheet1'', ?sheet)]) = (Some ?p, True)"
    by (simp add: initialize_processor_def new_ExcelProcessor_def identify_tables_def
          dict_update_def yt(2))
  have names: "get_table_names ?p = [''Sheet1_data'']"
    by (simp add: get_table_names_def)
  have labels: "get_table_row_names fl ?p ''Sheet1_data'' = Inr [''1'', ''2'']"
    by (simp add: get_table_row_names_def df_empty_def first_column_def years_sheet_def
          years_strings)
  have nf: "find_target_row fl ''1'' (iterrows fl ?sheet) = Inr None"
    by (simp add: yt(1) assms years_strings)
  have sum1: "calculate_row_sum fl ?p ''Sheet1_data'' ''1'' = Inl (row_not_found ''1'' ''Sheet1_data'')"
    by (simp add: calculate_row_sum_def nf)
  have http: "row_sum fl (Some ?p) ''Sheet1_data'' ''1'' =
       Inl (HTTPException 404 (error_str (row_not_found ''1'' ''Sheet1_data'')))"
    by (simp add: row_sum_def sum1 row_not_found_def)
  from init names labels sum1 http show ?thesis by blast
qed

theorem C10_listed_label_not_found_witness:
  "\<exists>p. initialize_processor
         (exact_floats\<lparr>f_str := (\<lambda>x. if x = Fin 1 then ''1.0'' else if x = Fin 2 then ''2.0''
              else if x = Fin (1 / 2) then ''0.5'' else ''1.5'')\<rparr>)
         ''capbudg.xls'' (Workbook [(''Sheet1'', years_sheet (Fin (1 / 2)) (Fin (3 / 2)))])
         = (Some p, True) \<and>
       get_table_row_names
         (exact_floats\<lparr>f_str := (\<lambda>x. if x = Fin 1 then ''1.0'' else if x = Fin 2 then ''2.0''
              else if x = Fin (1 / 2) then ''0.5'' else ''1.5'')\<rparr>)
         p ''Sheet1_data'' = Inr [''1'', ''2''] \<and>
       calculate_row_sum
         (exact_floats\<lparr>f_str := (\<lambda>x. if x = Fin 1 then ''1.0'' else if x = Fin 2 then ''2.0''
              else if x = Fin (1 / 2) then ''0.5'' else ''1.5'')\<rparr>)
         p ''Sheet1_data'' ''1'' = Inl (row_not_found ''1'' ''Sheet1_data'')"
proof -
  let ?fl = "exact_floats\<lparr>f_str := (\<lambda>x. if x = Fin 1 then ''1.0'' else if x = Fin 2 then ''2.0''
              else if x = Fin (1 / 2) then ''0.5'' else ''1.5'')\<rparr>"
  have "f_of_int ?fl 1 = Some (Fin 1)" "f_of_int ?fl 2 = Some (Fin 2)"
    "\<not> f_isnan ?fl (Fin 1)" "\<not> f_isnan ?fl (Fin 2)"
    "\<not> f_isnan ?fl (Fin (1 / 2))" "\<not> f_isnan ?fl (Fin (3 / 2))"
    "f_str ?fl (Fin 1) = ''1.0''" "f_str ?fl (Fin 2) = ''2.0''"
    "f_str ?fl (Fin (1 / 2)) = ''0.5''" "f_str ?fl (Fin (3 / 2)) = ''1.5''"
    by simp_all
  from C10_listed_label_not_found [of ?fl "Fin 1" "Fin 2" "Fin (1 / 2)" "Fin (3 / 2)"
      "''capbudg.xls''", OF this]
  show ?thesis by blast
qed

end
